theory Spec2Isabelle
  imports Complex_Main
begin

section \<open>Symbolic objects handled by the scripts\<close>

text \<open>
  Points, subgradients and function values are symbolic objects of the modelling library.
  The scripts only build new objects out of old ones (\<open>+\<close>, \<open>-\<close>, \<open>*\<close>, \<open>** 2\<close>, \<open>>=\<close>,
  \<open><=\<close>) and compare whole triples with \<open>!=\<close>. The datatypes below record exactly the
  constructions the scripts perform; a leaf stands for an object created by the library.
  Python numbers are read as reals; the comparison \<open>point_i != point_j\<close> of two triples
  is read as inequality of the triples.
\<close>

datatype point =
    PLeaf nat
  | PNull
  | PAdd point point
  | PSub point point
  | PScale real point

datatype expression =
    ELeaf nat
  | EConst real
  | EAdd expression expression
  | ESub expression expression
  | EScale real expression
  | EInner point point
  | ESquare point

datatype constraint =
    Geq expression expression
  | Leq expression expression

type_synonym triple = "point \<times> point \<times> expression"

datatype error = ZeroDivisionError | NameError | KeyError | ValueError | HarnessError nat

text \<open>Python's true division \<open>a / b\<close> on numbers: it raises on a zero divisor.\<close>

definition truediv :: "real \<Rightarrow> real \<Rightarrow> error + real" where
  "truediv a b = (if b = 0 then Inl ZeroDivisionError else Inr (a / b))"

text \<open>\<open>math.sqrt\<close>: it raises \<open>ValueError\<close> on a negative argument.\<close>

definition py_sqrt :: "real \<Rightarrow> error + real" where
  "py_sqrt a = (if a < 0 then Inl ValueError else Inr (sqrt a))"

text \<open>\<open>range(n)\<close> for a Python integer \<open>n\<close>: empty when \<open>n \<le> 0\<close>.\<close>

definition py_range :: "int \<Rightarrow> int list" where
  "py_range n = map int [0..<nat n]"

section \<open>The function class \<open>ConvexQGFunction\<close>\<close>

text \<open>
  Modelled from the spec: the base class \<open>Function\<close> of the modelling library, which is not
  part of the repository. The function object owns the ordered list of all recorded triples,
  the sub-list of stationary triples and the constraints registered against it; the lists
  are empty at creation (spec, section 3).
\<close>

record pepit_function =
  is_leaf :: bool
  decomposition_dict :: "(nat \<times> real) list option"
  reuse_gradient :: bool
  list_of_points :: "triple list"
  list_of_stationary_points :: "triple list"
  list_of_constraints :: "constraint list"

record convex_qg_function = pepit_function +
  self_L :: real

text \<open>
  Modelled from the spec: \<open>add_constraint(inequality)\<close>, the registration of one
  inequality against the owning function object (spec, section 6).
\<close>

definition add_constraint ::
  "'a pepit_function_scheme \<Rightarrow> constraint \<Rightarrow> 'a pepit_function_scheme" where
  "add_constraint self c = self\<lparr>list_of_constraints := list_of_constraints self @ [c]\<rparr>"

text \<open>\<open>ConvexQGFunction.__init__\<close>: the base initialiser, then \<open>self.L = param['L']\<close>.\<close>

definition ConvexQGFunction_init ::
  "(string \<rightharpoonup> real) \<Rightarrow> bool \<Rightarrow> (nat \<times> real) list option \<Rightarrow> bool
     \<Rightarrow> error + convex_qg_function" where
  "ConvexQGFunction_init param is_leaf_arg decomposition_dict_arg reuse_gradient_arg =
     (case param ''L'' of
        None \<Rightarrow> Inl KeyError
      | Some v \<Rightarrow>
          Inr \<lparr>is_leaf = is_leaf_arg,
               decomposition_dict = decomposition_dict_arg,
               reuse_gradient = reuse_gradient_arg,
               list_of_points = [],
               list_of_stationary_points = [],
               list_of_constraints = [],
               self_L = v\<rparr>)"

text \<open>
  The inequality built at line 69,
  \<open>fi - fj >= gj * (xi - xj) + 1 / (2 * self.L) * gj ** 2\<close>, once the number
  \<open>1 / (2 * self.L)\<close> has been computed, and the one built at line 81,
  \<open>fi - fj >= gj * (xi - xj)\<close>.
\<close>

fun qg_inequality :: "real \<Rightarrow> triple \<Rightarrow> triple \<Rightarrow> constraint" where
  "qg_inequality c (xi, gi, fi) (xj, gj, fj) =
     Geq (ESub fi fj) (EAdd (EInner gj (PSub xi xj)) (EScale c (ESquare gj)))"

fun convex_inequality :: "triple \<Rightarrow> triple \<Rightarrow> constraint" where
  "convex_inequality (xi, gi, fi) (xj, gj, fj) =
     Geq (ESub fi fj) (EInner gj (PSub xi xj))"

text \<open>
  First pair of loops (lines 59 to 69). The division \<open>1 / (2 * self.L)\<close> is evaluated
  each time the guard \<open>point_i != point_j\<close> holds, before the constraint is registered.
\<close>

fun stationary_loop_j ::
  "triple \<Rightarrow> triple list \<Rightarrow> 'a convex_qg_function_scheme
     \<Rightarrow> error + 'a convex_qg_function_scheme" where
  "stationary_loop_j point_i [] self = Inr self"
| "stationary_loop_j point_i (point_j # rest) self =
     (if point_i \<noteq> point_j then
        (case truediv 1 (2 * self_L self) of
           Inl e \<Rightarrow> Inl e
         | Inr c \<Rightarrow>
             stationary_loop_j point_i rest
               (add_constraint self (qg_inequality c point_i point_j)))
      else stationary_loop_j point_i rest self)"

fun stationary_loop_i ::
  "triple list \<Rightarrow> 'a convex_qg_function_scheme \<Rightarrow> error + 'a convex_qg_function_scheme" where
  "stationary_loop_i [] self = Inr self"
| "stationary_loop_i (point_i # rest) self =
     (case stationary_loop_j point_i (list_of_points self) self of
        Inl e \<Rightarrow> Inl e
      | Inr self' \<Rightarrow> stationary_loop_i rest self')"

text \<open>Second pair of loops (lines 71 to 81), over \<open>enumerate(self.list_of_points)\<close>.\<close>

fun convex_loop_j ::
  "nat \<times> triple \<Rightarrow> (nat \<times> triple) list \<Rightarrow> 'a convex_qg_function_scheme
     \<Rightarrow> 'a convex_qg_function_scheme" where
  "convex_loop_j (i, point_i) [] self = self"
| "convex_loop_j (i, point_i) ((j, point_j) # rest) self =
     (if i \<noteq> j then
        convex_loop_j (i, point_i) rest
          (add_constraint self (convex_inequality point_i point_j))
      else convex_loop_j (i, point_i) rest self)"

fun convex_loop_i ::
  "(nat \<times> triple) list \<Rightarrow> 'a convex_qg_function_scheme \<Rightarrow> 'a convex_qg_function_scheme" where
  "convex_loop_i [] self = self"
| "convex_loop_i (ip # rest) self =
     convex_loop_i rest (convex_loop_j ip (enumerate 0 (list_of_points self)) self)"

definition add_class_constraints ::
  "'a convex_qg_function_scheme \<Rightarrow> error + 'a convex_qg_function_scheme" where
  "add_class_constraints self =
     (case stationary_loop_i (list_of_stationary_points self) self of
        Inl e \<Rightarrow> Inl e
      | Inr self' \<Rightarrow> Inr (convex_loop_i (enumerate 0 (list_of_points self')) self'))"

subsection \<open>The two rules in the words of the specification\<close>

text \<open>
  Rule 1: every stationary triple \<open>i\<close> against every recorded triple \<open>j\<close> with
  \<open>i \<noteq> j\<close>. Rule 2: every ordered pair of distinct positions of the recorded list.
\<close>

definition stationary_pairs :: "triple list \<Rightarrow> triple list \<Rightarrow> (triple \<times> triple) list" where
  "stationary_pairs S P = concat (map (\<lambda>i. map (Pair i) (filter (\<lambda>j. i \<noteq> j) P)) S)"

definition index_pairs :: "nat \<Rightarrow> (nat \<times> nat) list" where
  "index_pairs n = concat (map (\<lambda>i. map (Pair i) (filter (\<lambda>j. i \<noteq> j) [0..<n])) [0..<n])"

definition rule1 :: "real \<Rightarrow> triple list \<Rightarrow> triple list \<Rightarrow> constraint list" where
  "rule1 L S P = map (\<lambda>(i, j). qg_inequality (1 / (2 * L)) i j) (stationary_pairs S P)"

definition rule2 :: "triple list \<Rightarrow> constraint list" where
  "rule2 P = map (\<lambda>(i, j). convex_inequality (P ! i) (P ! j)) (index_pairs (length P))"

text \<open>Whether an inequality carries the quadratic correction term.\<close>

fun has_quadratic_correction :: "constraint \<Rightarrow> bool" where
  "has_quadratic_correction (Geq l (EAdd r (EScale c (ESquare g)))) = True"
| "has_quadratic_correction c = False"


text \<open>
  What one call of the generator registers, as a function of the growth parameter, the
  recorded list and the stationary sub-list alone. The division by \<open>2 * L\<close> is reached
  as soon as rule 1 has a pair to treat.
\<close>

definition interpolation_constraints ::
  "real \<Rightarrow> triple list \<Rightarrow> triple list \<Rightarrow> error + constraint list" where
  "interpolation_constraints L P S =
     (if L = 0 \<and> stationary_pairs S P \<noteq> [] then Inl ZeroDivisionError
      else Inr (rule1 L S P @ rule2 P))"

section \<open>The harness used by the unrollers\<close>

text \<open>
  Modelled from the spec: the problem harness and the function oracle of the external
  modelling library (spec, section 6), which are not part of the repository. What they do
  with their state is left open: an unroller is modelled against an arbitrary harness,
  a record of operations on a harness state \<open>'st\<close>. Each operation takes the state and
  returns its result with the new state. Only \<open>solve\<close> may fail (infeasible or unbounded
  program, no convergence); the bookkeeping operations return normally.
\<close>

record 'st harness =
  new_PEP :: "'st"
  declare_function :: "convex_qg_function \<Rightarrow> 'st \<Rightarrow> 'st"
  func_stationary_point :: "'st \<Rightarrow> point \<times> 'st"
  func_value :: "point \<Rightarrow> 'st \<Rightarrow> expression \<times> 'st"
  func_gradient :: "point \<Rightarrow> 'st \<Rightarrow> point \<times> 'st"
  func_oracle :: "point \<Rightarrow> 'st \<Rightarrow> (point \<times> expression) \<times> 'st"
  set_initial_point :: "'st \<Rightarrow> point \<times> 'st"
  set_initial_condition :: "constraint \<Rightarrow> 'st \<Rightarrow> 'st"
  set_performance_metric :: "expression \<Rightarrow> 'st \<Rightarrow> 'st"
  solve :: "int \<Rightarrow> 'st \<Rightarrow> error + real"
  exact_linesearch_step :: "point \<Rightarrow> point list \<Rightarrow> 'st \<Rightarrow> (point \<times> point \<times> expression) \<times> 'st"

section \<open>Gradient descent with decreasing steps\<close>

text \<open>
  The loop of lines 116 to 121 over the values of \<open>range(n)\<close>; the loop variables are
  \<open>u\<close>, \<open>x\<close>, \<open>g\<close>, \<open>f\<close> and the harness state.
\<close>

fun gd_loop ::
  "'st harness \<Rightarrow> real \<Rightarrow> int list \<Rightarrow> real \<times> point \<times> point \<times> expression \<times> 'st
     \<Rightarrow> error + real \<times> point \<times> point \<times> expression \<times> 'st" where
  "gd_loop H L [] s = Inr s"
| "gd_loop H L (i # rest) (u, x, g, f, st) =
     (case py_sqrt ((u / 2)\<^sup>2 + 2) of
        Inl e \<Rightarrow> Inl e
      | Inr r \<Rightarrow>
          (case truediv 1 (L * (u / 2 + r)) of
             Inl e \<Rightarrow> Inl e
           | Inr gamma \<Rightarrow>
               (case func_oracle H (PSub x (PScale gamma g)) st of
                  ((g', f'), st') \<Rightarrow>
                    gd_loop H L rest (u / 2 + r, PSub x (PScale gamma g), g', f', st'))))"

text \<open>Lines 97 to 112: the problem, the function, its minimiser and the starting point.\<close>

definition gd_setup ::
  "'st harness \<Rightarrow> real \<Rightarrow> error + expression \<times> point \<times> point \<times> expression \<times> 'st" where
  "gd_setup H L =
     (case ConvexQGFunction_init [''L'' \<mapsto> L] True None False of
        Inl e \<Rightarrow> Inl e
      | Inr func \<Rightarrow>
          (case func_stationary_point H (declare_function H func (new_PEP H)) of
             (xs, st1) \<Rightarrow>
          (case func_value H xs st1 of
             (fs, st2) \<Rightarrow>
          (case set_initial_point H st2 of
             (x, st3) \<Rightarrow>
          (case func_oracle H x st3 of
             ((g, f), st4) \<Rightarrow>
               Inr (fs, x, g, f,
                    set_initial_condition H (Leq (ESquare (PSub x xs)) (EConst 1)) st4))))))"

text \<open>
  The whole entry point. The printed report (lines 134 to 137) does not enter the
  returned pair and is left out.
\<close>

definition wc_gradient_descent_qg_convex_decreasing ::
  "'st harness \<Rightarrow> real \<Rightarrow> int \<Rightarrow> int \<Rightarrow> error + real \<times> real" where
  "wc_gradient_descent_qg_convex_decreasing H L n verbose =
     (case gd_setup H L of
        Inl e \<Rightarrow> Inl e
      | Inr (fs, x, g, f, st) \<Rightarrow>
          (case gd_loop H L (py_range n) (1, x, g, f, st) of
             Inl e \<Rightarrow> Inl e
           | Inr (u, x', g', f', st') \<Rightarrow>
               (case truediv L (2 * u) of
                  Inl e \<Rightarrow> Inl e
                | Inr theoretical_tau \<Rightarrow>
                    (case solve H (max verbose 0) (set_performance_metric H (ESub f' fs) st') of
                       Inl e \<Rightarrow> Inl e
                     | Inr pepit_tau \<Rightarrow> Inr (pepit_tau, theoretical_tau)))))"

text \<open>The scalar sequence of the docstring: \<open>u\<^sub>0 = 1\<close> and the recurrence of line 118.\<close>

fun u_seq :: "nat \<Rightarrow> real" where
  "u_seq 0 = 1"
| "u_seq (Suc t) = u_seq t / 2 + sqrt ((u_seq t / 2)\<^sup>2 + 2)"

section \<open>Heavy-ball momentum\<close>

text \<open>
  The loop of lines 108 to 111. The coefficient \<open>1 / (L * (t+2))\<close> is computed before
  the gradient is requested; the loop keeps the current iterate \<open>x_new\<close> and one
  earlier iterate \<open>x_old\<close>.
\<close>

fun hb_loop ::
  "'st harness \<Rightarrow> real \<Rightarrow> int list \<Rightarrow> point \<times> point \<times> 'st \<Rightarrow> error + point \<times> point \<times> 'st" where
  "hb_loop H L [] s = Inr s"
| "hb_loop H L (t # rest) (x_new, x_old, st) =
     (case truediv 1 (L * real_of_int (t + 2)) of
        Inl e \<Rightarrow> Inl e
      | Inr a \<Rightarrow>
          (case func_gradient H x_new st of
             (gr, st') \<Rightarrow>
               (case truediv (real_of_int t) (real_of_int (t + 2)) of
                  Inl e \<Rightarrow> Inl e
                | Inr b \<Rightarrow>
                    hb_loop H L rest
                      (PAdd (PSub x_new (PScale a gr)) (PScale b (PSub x_new x_old)),
                       x_new, st'))))"

text \<open>Lines 87 to 106.\<close>

definition hb_setup :: "'st harness \<Rightarrow> real \<Rightarrow> error + expression \<times> point \<times> 'st" where
  "hb_setup H L =
     (case ConvexQGFunction_init [''L'' \<mapsto> L] True None False of
        Inl e \<Rightarrow> Inl e
      | Inr func \<Rightarrow>
          (case func_stationary_point H (declare_function H func (new_PEP H)) of
             (xs, st1) \<Rightarrow>
          (case func_value H xs st1 of
             (fs, st2) \<Rightarrow>
          (case set_initial_point H st2 of
             (x0, st3) \<Rightarrow>
          (case func_value H x0 st3 of
             (f0, st4) \<Rightarrow>
               Inr (fs, x0,
                    set_initial_condition H (Leq (ESquare (PSub x0 xs)) (EConst 1)) st4))))))"

text \<open>Lines 113 and 114: the metric registered after the loop, and the state handed to the solver.\<close>

definition hb_metric :: "'st harness \<Rightarrow> expression \<Rightarrow> point \<Rightarrow> 'st \<Rightarrow> expression \<times> 'st" where
  "hb_metric H fs x_new st =
     (case func_value H x_new st of
        (fx, st') \<Rightarrow> (ESub fx fs, set_performance_metric H (ESub fx fs) st'))"

definition wc_heavy_ball_momentum_qg_convex ::
  "'st harness \<Rightarrow> real \<Rightarrow> int \<Rightarrow> int \<Rightarrow> error + real \<times> real" where
  "wc_heavy_ball_momentum_qg_convex H L n verbose =
     (case hb_setup H L of
        Inl e \<Rightarrow> Inl e
      | Inr (fs, x0, st) \<Rightarrow>
          (case hb_loop H L (py_range n) (x0, x0, st) of
             Inl e \<Rightarrow> Inl e
           | Inr (x_new, x_old, st') \<Rightarrow>
               (case solve H (max verbose 0) (snd (hb_metric H fs x_new st')) of
                  Inl e \<Rightarrow> Inl e
                | Inr pepit_tau \<Rightarrow>
                    (case truediv L (2 * real_of_int (n + 1)) of
                       Inl e \<Rightarrow> Inl e
                     | Inr theoretical_tau \<Rightarrow> Inr (pepit_tau, theoretical_tau)))))"

section \<open>Conjugate gradient\<close>

text \<open>
  The loop of lines 101 to 105. The local name \<open>fx\<close> is bound by the loop body only, so
  it is carried as an option: \<open>None\<close> while it is unbound. The names \<open>x_old\<close> and
  \<open>gx\<close> are bound afresh in each iteration before they are read; the list \<open>span\<close>
  is written \<open>span_list\<close>.
\<close>

fun cg_loop ::
  "'st harness \<Rightarrow> int list \<Rightarrow> point \<times> expression option \<times> point list \<times> 'st
     \<Rightarrow> point \<times> expression option \<times> point list \<times> 'st" where
  "cg_loop H [] s = s"
| "cg_loop H (i # rest) (x_new, fx, span_list, st) =
     (case exact_linesearch_step H x_new span_list st of
        ((x_new', gx, fx'), st') \<Rightarrow>
          cg_loop H rest (x_new', Some fx', (span_list @ [gx]) @ [PSub x_new x_new'], st'))"

text \<open>Lines 81 to 100.\<close>

definition cg_setup ::
  "'st harness \<Rightarrow> real \<Rightarrow> error + expression \<times> point \<times> point \<times> 'st" where
  "cg_setup H L =
     (case ConvexQGFunction_init [''L'' \<mapsto> L] True None False of
        Inl e \<Rightarrow> Inl e
      | Inr func \<Rightarrow>
          (case func_stationary_point H (declare_function H func (new_PEP H)) of
             (xs, st1) \<Rightarrow>
          (case func_value H xs st1 of
             (fs, st2) \<Rightarrow>
          (case set_initial_point H st2 of
             (x0, st3) \<Rightarrow>
          (case func_oracle H x0
                  (set_initial_condition H (Leq (ESquare (PSub x0 xs)) (EConst 1)) st3) of
             ((g0, f0), st4) \<Rightarrow> Inr (fs, x0, g0, st4))))))"

text \<open>
  Line 108: the argument \<open>fx - fs\<close> is evaluated first; reading the unbound local
  \<open>fx\<close> raises \<open>UnboundLocalError\<close>, a \<open>NameError\<close>.
\<close>

definition cg_metric ::
  "'st harness \<Rightarrow> expression \<Rightarrow> expression option \<Rightarrow> 'st \<Rightarrow> error + expression \<times> 'st" where
  "cg_metric H fs fx st =
     (case fx of
        None \<Rightarrow> Inl NameError
      | Some v \<Rightarrow> Inr (ESub v fs, set_performance_metric H (ESub v fs) st))"

definition wc_conjugate_gradient_qg_convex ::
  "'st harness \<Rightarrow> real \<Rightarrow> int \<Rightarrow> int \<Rightarrow> error + real \<times> real" where
  "wc_conjugate_gradient_qg_convex H L n verbose =
     (case cg_setup H L of
        Inl e \<Rightarrow> Inl e
      | Inr (fs, x0, g0, st) \<Rightarrow>
          (case cg_loop H (py_range n) (x0, None, [g0], st) of
             (x_new, fx, span_list, st') \<Rightarrow>
               (case cg_metric H fs fx st' of
                  Inl e \<Rightarrow> Inl e
                | Inr (metric, st'') \<Rightarrow>
                    (case solve H (max verbose 0) st'' of
                       Inl e \<Rightarrow> Inl e
                     | Inr pepit_tau \<Rightarrow>
                         (case truediv L (2 * real_of_int (n + 1)) of
                            Inl e \<Rightarrow> Inl e
                          | Inr theoretical_tau \<Rightarrow> Inr (pepit_tau, theoretical_tau))))))"


section \<open>Concrete inputs\<close>

text \<open>
  A function object with one stationary triple and two further recorded triples, as the
  decreasing-step method leaves it after one iteration with \<open>L = 1\<close>.
\<close>

definition example_function :: convex_qg_function where
  "example_function =
     \<lparr>is_leaf = True, decomposition_dict = None, reuse_gradient = False,
      list_of_points =
        [(PLeaf 0, PNull, ELeaf 0),
         (PLeaf 1, PLeaf 2, ELeaf 1),
         (PSub (PLeaf 1) (PScale (1 / 2) (PLeaf 2)), PLeaf 3, ELeaf 2)],
      list_of_stationary_points = [(PLeaf 0, PNull, ELeaf 0)],
      list_of_constraints = [],
      self_L = 1\<rparr>"

text \<open>The toy case of two recorded triples, the first of them stationary.\<close>

definition two_point_function :: convex_qg_function where
  "two_point_function =
     \<lparr>is_leaf = True, decomposition_dict = None, reuse_gradient = False,
      list_of_points = [(PLeaf 0, PNull, ELeaf 0), (PLeaf 1, PLeaf 2, ELeaf 1)],
      list_of_stationary_points = [(PLeaf 0, PNull, ELeaf 0)],
      list_of_constraints = [],
      self_L = 1\<rparr>"

text \<open>The same object with growth parameter \<open>0\<close>.\<close>

definition degenerate_function :: convex_qg_function where
  "degenerate_function = example_function\<lparr>self_L := 0\<rparr>"

text \<open>
  A harness that does nothing but log the calls it receives. The \<open>k\<close>-th call answers
  with the leaves numbered \<open>2k\<close> and \<open>2k + 1\<close>; the solver's answer is a parameter.
\<close>

datatype call =
    DeclareFunction convex_qg_function
  | StationaryPoint
  | Value point
  | Gradient point
  | Oracle point
  | SetInitialPoint
  | SetInitialCondition constraint
  | SetPerformanceMetric expression
  | ExactLinesearchStep point "point list"

definition logging_harness :: "(call list \<Rightarrow> error + real) \<Rightarrow> call list harness" where
  "logging_harness solver =
     \<lparr>new_PEP = [],
      declare_function = (\<lambda>func log. log @ [DeclareFunction func]),
      func_stationary_point = (\<lambda>log. (PLeaf (2 * length log), log @ [StationaryPoint])),
      func_value = (\<lambda>x log. (ELeaf (2 * length log), log @ [Value x])),
      func_gradient = (\<lambda>x log. (PLeaf (2 * length log), log @ [Gradient x])),
      func_oracle =
        (\<lambda>x log. ((PLeaf (2 * length log), ELeaf (2 * length log + 1)), log @ [Oracle x])),
      set_initial_point = (\<lambda>log. (PLeaf (2 * length log), log @ [SetInitialPoint])),
      set_initial_condition = (\<lambda>c log. log @ [SetInitialCondition c]),
      set_performance_metric = (\<lambda>e log. log @ [SetPerformanceMetric e]),
      solve = (\<lambda>verbose log. solver log),
      exact_linesearch_step =
        (\<lambda>x directions log.
           ((PLeaf (2 * length log), PLeaf (2 * length log + 1), ELeaf (2 * length log + 1)),
            log @ [ExactLinesearchStep x directions]))\<rparr>"

text \<open>The logging harness with a solver that always answers \<open>1 / 10\<close>.\<close>

definition example_harness :: "call list harness" where
  "example_harness = logging_harness (\<lambda>log. Inr (1 / 10))"

section \<open>Properties of the constraint generator\<close>

lemma stationary_loop_j_ok:
  "self_L self \<noteq> 0 \<Longrightarrow>
   stationary_loop_j p P self =
     Inr (self\<lparr>list_of_constraints := list_of_constraints self @
            map (qg_inequality (1 / (2 * self_L self)) p) (filter (\<lambda>j. p \<noteq> j) P)\<rparr>)"
  by (induction P arbitrary: self) (auto simp add: truediv_def add_constraint_def)

lemma stationary_loop_j_zero:
  "self_L self = 0 \<Longrightarrow>
   stationary_loop_j p P self =
     (if filter (\<lambda>j. p \<noteq> j) P = [] then Inr self else Inl ZeroDivisionError)"
  by (induction P arbitrary: self) (auto simp add: truediv_def)

lemma stationary_loop_i_ok:
  "self_L self \<noteq> 0 \<Longrightarrow>
   stationary_loop_i S self =
     Inr (self\<lparr>list_of_constraints := list_of_constraints self @
            rule1 (self_L self) S (list_of_points self)\<rparr>)"
  by (induction S arbitrary: self)
     (simp_all add: stationary_loop_j_ok rule1_def stationary_pairs_def comp_def)

lemma stationary_loop_i_zero:
  "self_L self = 0 \<Longrightarrow>
   stationary_loop_i S self =
     (if stationary_pairs S (list_of_points self) = [] then Inr self
      else Inl ZeroDivisionError)"
  by (induction S arbitrary: self)
     (simp_all add: stationary_loop_j_zero stationary_pairs_def)

lemma convex_loop_j_eq:
  "convex_loop_j (i, p) js self =
     self\<lparr>list_of_constraints := list_of_constraints self @
            map (\<lambda>(j, q). convex_inequality p q) (filter (\<lambda>(j, q). i \<noteq> j) js)\<rparr>"
  by (induction js arbitrary: self) (auto simp add: add_constraint_def)

lemma convex_loop_i_eq:
  "convex_loop_i is self =
     self\<lparr>list_of_constraints := list_of_constraints self @
            concat (map (\<lambda>(i, p). map (\<lambda>(j, q). convex_inequality p q)
                      (filter (\<lambda>(j, q). i \<noteq> j) (enumerate 0 (list_of_points self)))) is)\<rparr>"
  by (induction "is" arbitrary: self) (auto simp add: convex_loop_j_eq)

lemma enumerate_nth: "enumerate 0 P = map (\<lambda>i. (i, P ! i)) [0..<length P]"
  by (rule nth_equalityI) (simp_all add: nth_enumerate_eq)

lemma rule2_enumerate:
  "concat (map (\<lambda>(i, p). map (\<lambda>(j, q). convex_inequality p q)
                      (filter (\<lambda>(j, q). i \<noteq> j) (enumerate 0 P))) (enumerate 0 P)) = rule2 P"
  unfolding rule2_def index_pairs_def
  by (simp add: enumerate_nth map_concat filter_map comp_def)


lemma add_class_constraints_eq:
  "add_class_constraints self =
     (case interpolation_constraints (self_L self) (list_of_points self) (list_of_stationary_points self) of
        Inl e \<Rightarrow> Inl e
      | Inr new \<Rightarrow> Inr (self\<lparr>list_of_constraints := list_of_constraints self @ new\<rparr>))"
proof (cases "self_L self = 0")
  case True
  then show ?thesis
    by (simp add: add_class_constraints_def interpolation_constraints_def stationary_loop_i_zero
        convex_loop_i_eq rule2_enumerate rule1_def)
next
  case False
  then show ?thesis
    by (simp add: add_class_constraints_def interpolation_constraints_def stationary_loop_i_ok
        convex_loop_i_eq rule2_enumerate)
qed

lemma length_filter_neq:
  "distinct P \<Longrightarrow> i \<in> set P \<Longrightarrow> length (filter (\<lambda>j. i \<noteq> j) P) = length P - 1"
proof (induction P)
  case Nil
  then show ?case by simp
next
  case (Cons a P)
  show ?case
  proof (cases "i = a")
    case True
    with Cons.prems have "filter (\<lambda>j. i \<noteq> j) P = P"
      by (auto intro: filter_True)
    with True show ?thesis by simp
  next
    case False
    with Cons have "length (filter (\<lambda>j. i \<noteq> j) P) = length P - 1" "P \<noteq> []"
      by auto
    with False show ?thesis by (cases P) auto
  qed
qed

lemma length_stationary_pairs:
  "distinct P \<Longrightarrow> set S \<subseteq> set P \<Longrightarrow>
   length (stationary_pairs S P) = length S * (length P - 1)"
  by (induction S) (simp_all add: stationary_pairs_def length_filter_neq)

lemma length_index_pairs: "length (index_pairs n) = n * (n - 1)"
proof -
  have "\<And>S. set S \<subseteq> {0..<n} \<Longrightarrow>
      length (concat (map (\<lambda>i. map (Pair i) (filter (\<lambda>j. i \<noteq> j) [0..<n])) S))
        = length S * (n - 1)"
  proof -
    fix S :: "nat list"
    assume "set S \<subseteq> {0..<n}"
    then show "length (concat (map (\<lambda>i. map (Pair i) (filter (\<lambda>j. i \<noteq> j) [0..<n])) S))
        = length S * (n - 1)"
      by (induction S) (simp_all add: length_filter_neq)
  qed
  from this [of "[0..<n]"] show ?thesis by (simp add: index_pairs_def)
qed

lemma set_stationary_pairs:
  "set (stationary_pairs S P) = {(i, j). i \<in> set S \<and> j \<in> set P \<and> i \<noteq> j}"
  by (auto simp add: stationary_pairs_def)

lemma set_index_pairs:
  "set (index_pairs n) = {(i, j). i < n \<and> j < n \<and> i \<noteq> j}"
  by (auto simp add: index_pairs_def)

lemma distinct_pairs_aux:
  "distinct S \<Longrightarrow> distinct P \<Longrightarrow>
   distinct (concat (map (\<lambda>i. map (Pair i) (filter (\<lambda>j. i \<noteq> j) P)) S))"
  by (induction S) (auto simp add: distinct_map inj_on_def)

lemma distinct_stationary_pairs:
  "distinct S \<Longrightarrow> distinct P \<Longrightarrow> distinct (stationary_pairs S P)"
  unfolding stationary_pairs_def by (rule distinct_pairs_aux)

lemma distinct_index_pairs: "distinct (index_pairs n)"
  unfolding index_pairs_def by (rule distinct_pairs_aux) simp_all

lemma convex_inequality_directional:
  "convex_inequality p q = convex_inequality q p \<longleftrightarrow> p = q"
  by (cases p; cases q) auto

lemma has_quadratic_qg [simp]: "has_quadratic_correction (qg_inequality c p q)"
  by (cases p; cases q) simp

lemma has_quadratic_convex [simp]: "\<not> has_quadratic_correction (convex_inequality p q)"
  by (cases p; cases q) simp

lemma filter_quadratic:
  "filter has_quadratic_correction (rule1 L S P @ rule2 P) = rule1 L S P"
  by (simp add: rule1_def rule2_def filter_map comp_def split_def)

lemma filter_plain:
  "filter (\<lambda>c. \<not> has_quadratic_correction c) (rule1 L S P @ rule2 P) = rule2 P"
  by (simp add: rule1_def rule2_def filter_map comp_def split_def)


lemma count_list_map_Pair:
  "count_list (map (Pair i) xs) (a, b) = (if a = i then count_list xs b else 0)"
  by (induction xs) auto

lemma count_list_filter_neq:
  "count_list (filter (\<lambda>j. i \<noteq> j) P) b = (if i \<noteq> b then count_list P b else 0)"
  by (induction P) auto

lemma count_list_append: "count_list (xs @ ys) z = count_list xs z + count_list ys z"
  by (induction xs) auto

lemma count_stationary_pairs:
  "count_list (stationary_pairs S P) (a, b) =
     (if a \<noteq> b then count_list S a * count_list P b else 0)"
  by (induction S)
     (auto simp add: stationary_pairs_def count_list_append count_list_map_Pair
        count_list_filter_neq)

subsection \<open>Number of registered constraints\<close>

text \<open>
  Claim C1. When the recorded triples are pairwise distinct, every stationary triple is a
  recorded triple and \<open>L\<close> is not zero, one call of \<open>add_class_constraints\<close> returns
  normally and appends the constraints of rule 1 followed by those of rule 2:
  \<open>|S| (|P| - 1)\<close> of the first kind and \<open>|P| (|P| - 1)\<close> of the second (so \<open>k\<close> and
  \<open>(k + 1) k\<close> when \<open>|S| = 1\<close> and \<open>|P| = k + 1\<close>). No constraint pairs a triple with
  itself. With \<open>L = 0\<close> the division \<open>1 / (2 * self.L)\<close> raises instead.
\<close>

theorem add_class_constraints_count:
  assumes "distinct (list_of_points self)"
    and "set (list_of_stationary_points self) \<subseteq> set (list_of_points self)"
    and "self_L self \<noteq> 0"
  shows "\<exists>new1 new2.
      add_class_constraints self =
        Inr (self\<lparr>list_of_constraints := list_of_constraints self @ new1 @ new2\<rparr>)
    \<and> new1 = rule1 (self_L self) (list_of_stationary_points self) (list_of_points self)
    \<and> new2 = rule2 (list_of_points self)
    \<and> int (length new1) =
        int (length (list_of_stationary_points self)) * (int (length (list_of_points self)) - 1)
    \<and> int (length new2) =
        int (length (list_of_points self)) * (int (length (list_of_points self)) - 1)
    \<and> int (length (new1 @ new2)) =
        int (length (list_of_stationary_points self)) * (int (length (list_of_points self)) - 1)
        + int (length (list_of_points self)) * (int (length (list_of_points self)) - 1)
    \<and> (\<forall>(i, j) \<in> set (stationary_pairs (list_of_stationary_points self) (list_of_points self)).
          i \<noteq> j)
    \<and> (\<forall>(i, j) \<in> set (index_pairs (length (list_of_points self))).
          i \<noteq> j \<and> list_of_points self ! i \<noteq> list_of_points self ! j)"
proof -
  let ?P = "list_of_points self" and ?S = "list_of_stationary_points self"
  have run: "add_class_constraints self =
      Inr (self\<lparr>list_of_constraints := list_of_constraints self @
             rule1 (self_L self) ?S ?P @ rule2 ?P\<rparr>)"
    using assms(3) by (simp add: add_class_constraints_eq interpolation_constraints_def)
  have n1: "length (rule1 (self_L self) ?S ?P) = length ?S * (length ?P - 1)"
    using assms(1,2) by (simp add: rule1_def length_stationary_pairs)
  have n2: "length (rule2 ?P) = length ?P * (length ?P - 1)"
    by (simp add: rule2_def length_index_pairs)
  have S_empty: "?P = [] \<Longrightarrow> ?S = []"
    using assms(2) by simp
  have i1: "int (length ?S * (length ?P - 1)) = int (length ?S) * (int (length ?P) - 1)"
    using S_empty by (cases ?P) (simp_all add: algebra_simps)
  have i2: "int (length ?P * (length ?P - 1)) = int (length ?P) * (int (length ?P) - 1)"
    by (cases ?P) (simp_all add: algebra_simps)
  have d1: "\<forall>(i, j) \<in> set (stationary_pairs ?S ?P). i \<noteq> j"
    by (simp add: set_stationary_pairs)
  have d2: "\<forall>(i, j) \<in> set (index_pairs (length ?P)). i \<noteq> j \<and> ?P ! i \<noteq> ?P ! j"
    using assms(1) by (auto simp add: set_index_pairs nth_eq_iff_index_eq)
  have e1: "int (length (rule1 (self_L self) ?S ?P)) = int (length ?S) * (int (length ?P) - 1)"
    by (simp only: n1 i1)
  have e2: "int (length (rule2 ?P)) = int (length ?P) * (int (length ?P) - 1)"
    by (simp only: n2 i2)
  have e3: "int (length (rule1 (self_L self) ?S ?P @ rule2 ?P)) =
      int (length ?S) * (int (length ?P) - 1) + int (length ?P) * (int (length ?P) - 1)"
    by (simp only: length_append of_nat_add e1 e2)
  show ?thesis
    by (intro exI conjI) (rule run refl e1 e2 e3 d1 d2)+
qed

theorem add_class_constraints_count_witness:
  "distinct (list_of_points example_function)
   \<and> set (list_of_stationary_points example_function) \<subseteq> set (list_of_points example_function)
   \<and> self_L example_function \<noteq> 0
   \<and> (\<exists>new. add_class_constraints example_function =
          Inr (example_function\<lparr>list_of_constraints := new\<rparr>) \<and> length new = 8)"
proof -
  have h1: "distinct (list_of_points example_function)"
    by (simp add: example_function_def)
  have h2: "set (list_of_stationary_points example_function)
      \<subseteq> set (list_of_points example_function)"
    by (simp add: example_function_def)
  have h3: "self_L example_function \<noteq> 0"
    by (simp add: example_function_def)
  have len: "length (list_of_points example_function) = 3"
     "length (list_of_stationary_points example_function) = 1"
     "list_of_constraints example_function = []"
    by (simp_all add: example_function_def)
  from add_class_constraints_count [OF h1 h2 h3] obtain new1 new2 where
    r: "add_class_constraints example_function =
        Inr (example_function\<lparr>list_of_constraints :=
               list_of_constraints example_function @ new1 @ new2\<rparr>)"
    and l: "int (length (new1 @ new2)) =
        int (length (list_of_stationary_points example_function))
          * (int (length (list_of_points example_function)) - 1)
        + int (length (list_of_points example_function))
          * (int (length (list_of_points example_function)) - 1)"
    by blast
  from l have "length (new1 @ new2) = 8"
    unfolding len by simp
  with r h1 h2 h3 show ?thesis
    unfolding len by auto
qed

subsection \<open>The one-sided inequality\<close>

text \<open>
  Claim C2. With \<open>L\<close> not zero, the constraints of one call that carry the quadratic
  correction term are exactly those of rule 1, in order: one for each pair made of an entry
  \<open>i\<close> of the stationary list and an entry \<open>j \<noteq> i\<close> of the recorded list, of the form
  \<open>f\<^sub>i - f\<^sub>j \<ge> g\<^sub>j (x\<^sub>i - x\<^sub>j) + (1 / (2 L)) g\<^sub>j\<^sup>2\<close>. The left triple of such a constraint is
  always a stationary one, and the pair \<open>(i, j)\<close> is treated as many times as \<open>i\<close> occurs
  in the stationary list times \<open>j\<close> occurs in the recorded list: once when the lists have
  no repetition.
\<close>

theorem quadratic_correction_only_from_stationary:
  assumes "self_L self \<noteq> 0"
  shows "\<exists>new.
      add_class_constraints self =
        Inr (self\<lparr>list_of_constraints := list_of_constraints self @ new\<rparr>)
    \<and> filter has_quadratic_correction new =
        map (\<lambda>(i, j). qg_inequality (1 / (2 * self_L self)) i j)
          (stationary_pairs (list_of_stationary_points self) (list_of_points self))
    \<and> (\<forall>c \<in> set new. has_quadratic_correction c \<longrightarrow>
          (\<exists>xi gi fi xj gj fj.
              (xi, gi, fi) \<in> set (list_of_stationary_points self)
            \<and> (xj, gj, fj) \<in> set (list_of_points self)
            \<and> (xi, gi, fi) \<noteq> (xj, gj, fj)
            \<and> c = Geq (ESub fi fj)
                    (EAdd (EInner gj (PSub xi xj)) (EScale (1 / (2 * self_L self)) (ESquare gj)))))
    \<and> (\<forall>i j. count_list
                 (stationary_pairs (list_of_stationary_points self) (list_of_points self)) (i, j) =
               (if i \<noteq> j
                then count_list (list_of_stationary_points self) i * count_list (list_of_points self) j
                else 0))"
proof -
  let ?P = "list_of_points self" and ?S = "list_of_stationary_points self"
  let ?new = "rule1 (self_L self) ?S ?P @ rule2 ?P"
  have run: "add_class_constraints self =
      Inr (self\<lparr>list_of_constraints := list_of_constraints self @ ?new\<rparr>)"
    using assms by (simp add: add_class_constraints_eq interpolation_constraints_def)
  have quad: "filter has_quadratic_correction ?new =
      map (\<lambda>(i, j). qg_inequality (1 / (2 * self_L self)) i j) (stationary_pairs ?S ?P)"
    using filter_quadratic [of "self_L self" ?S ?P] by (simp only: rule1_def)
  have shape: "\<forall>c \<in> set ?new. has_quadratic_correction c \<longrightarrow>
          (\<exists>xi gi fi xj gj fj.
              (xi, gi, fi) \<in> set ?S \<and> (xj, gj, fj) \<in> set ?P \<and> (xi, gi, fi) \<noteq> (xj, gj, fj)
            \<and> c = Geq (ESub fi fj)
                    (EAdd (EInner gj (PSub xi xj)) (EScale (1 / (2 * self_L self)) (ESquare gj))))"
  proof (intro ballI impI)
    fix c
    assume c: "c \<in> set ?new" and q: "has_quadratic_correction c"
    from q have "c \<in> set (filter has_quadratic_correction ?new)"
      using c by simp
    then have "c \<in> set (rule1 (self_L self) ?S ?P)"
      by (simp only: filter_quadratic)
    then obtain i j where ij: "(i, j) \<in> set (stationary_pairs ?S ?P)"
      and ceq: "c = qg_inequality (1 / (2 * self_L self)) i j"
      by (auto simp add: rule1_def)
    obtain xi gi fi where i: "i = (xi, gi, fi)" by (cases i)
    obtain xj gj fj where j: "j = (xj, gj, fj)" by (cases j)
    from ij have "i \<in> set ?S" "j \<in> set ?P" "i \<noteq> j"
      by (simp_all add: set_stationary_pairs)
    with ceq show "\<exists>xi gi fi xj gj fj.
              (xi, gi, fi) \<in> set ?S \<and> (xj, gj, fj) \<in> set ?P \<and> (xi, gi, fi) \<noteq> (xj, gj, fj)
            \<and> c = Geq (ESub fi fj)
                    (EAdd (EInner gj (PSub xi xj)) (EScale (1 / (2 * self_L self)) (ESquare gj)))"
      unfolding i j by (intro exI [of _ xi] exI [of _ gi] exI [of _ fi]
          exI [of _ xj] exI [of _ gj] exI [of _ fj]) simp
  qed
  have cnt: "\<forall>i j. count_list (stationary_pairs ?S ?P) (i, j) =
               (if i \<noteq> j then count_list ?S i * count_list ?P j else 0)"
    by (simp only: count_stationary_pairs) simp
  show ?thesis
    by (intro exI [of _ ?new] conjI) (rule run quad shape cnt)+
qed

theorem quadratic_correction_only_from_stationary_witness:
  "self_L example_function \<noteq> 0
   \<and> (\<exists>new. add_class_constraints example_function =
          Inr (example_function\<lparr>list_of_constraints := new\<rparr>)
        \<and> length (filter has_quadratic_correction new) = 2)"
proof -
  have h: "self_L example_function \<noteq> 0"
    by (simp add: example_function_def)
  have pairs: "stationary_pairs (list_of_stationary_points example_function)
        (list_of_points example_function) =
      [((PLeaf 0, PNull, ELeaf 0), (PLeaf 1, PLeaf 2, ELeaf 1)),
       ((PLeaf 0, PNull, ELeaf 0),
        (PSub (PLeaf 1) (PScale (1 / 2) (PLeaf 2)), PLeaf 3, ELeaf 2))]"
    by (simp add: example_function_def stationary_pairs_def)
  have nil: "list_of_constraints example_function = []"
    by (simp add: example_function_def)
  from quadratic_correction_only_from_stationary [OF h] obtain new where
    r: "add_class_constraints example_function =
        Inr (example_function\<lparr>list_of_constraints := list_of_constraints example_function @ new\<rparr>)"
    and q: "filter has_quadratic_correction new =
        map (\<lambda>(i, j). qg_inequality (1 / (2 * self_L example_function)) i j)
          (stationary_pairs (list_of_stationary_points example_function)
             (list_of_points example_function))"
    by blast
  from q have "length (filter has_quadratic_correction new) = 2"
    unfolding pairs by simp
  with r h show ?thesis
    unfolding nil by auto
qed

subsection \<open>The convexity cuts\<close>

text \<open>
  Claim C3. With \<open>L\<close> not zero, the constraints of one call without the quadratic term are
  the plain convexity cuts \<open>f\<^sub>i - f\<^sub>j \<ge> g\<^sub>j (x\<^sub>i - x\<^sub>j)\<close>, one for each ordered pair of
  distinct positions \<open>(i, j)\<close> of the recorded list and each pair exactly once, whether or not
  a position holds a stationary triple. Both \<open>(i, j)\<close> and \<open>(j, i)\<close> are treated, and the two
  cuts differ as soon as the two triples differ.
\<close>

theorem convexity_cut_for_every_ordered_pair:
  assumes "self_L self \<noteq> 0"
  shows "\<exists>new.
      add_class_constraints self =
        Inr (self\<lparr>list_of_constraints := list_of_constraints self @ new\<rparr>)
    \<and> filter (\<lambda>c. \<not> has_quadratic_correction c) new =
        map (\<lambda>(i, j). convex_inequality (list_of_points self ! i) (list_of_points self ! j))
          (index_pairs (length (list_of_points self)))
    \<and> set (index_pairs (length (list_of_points self))) =
        {(i, j). i < length (list_of_points self) \<and> j < length (list_of_points self) \<and> i \<noteq> j}
    \<and> distinct (index_pairs (length (list_of_points self)))
    \<and> (\<forall>i < length (list_of_points self). \<forall>j < length (list_of_points self). i \<noteq> j \<longrightarrow>
          convex_inequality (list_of_points self ! i) (list_of_points self ! j) \<in> set new
        \<and> convex_inequality (list_of_points self ! j) (list_of_points self ! i) \<in> set new
        \<and> (list_of_points self ! i \<noteq> list_of_points self ! j \<longrightarrow>
              convex_inequality (list_of_points self ! i) (list_of_points self ! j)
              \<noteq> convex_inequality (list_of_points self ! j) (list_of_points self ! i)))"
proof -
  let ?P = "list_of_points self" and ?S = "list_of_stationary_points self"
  let ?new = "rule1 (self_L self) ?S ?P @ rule2 ?P"
  have run: "add_class_constraints self =
      Inr (self\<lparr>list_of_constraints := list_of_constraints self @ ?new\<rparr>)"
    using assms by (simp add: add_class_constraints_eq interpolation_constraints_def)
  have plain: "filter (\<lambda>c. \<not> has_quadratic_correction c) ?new =
      map (\<lambda>(i, j). convex_inequality (?P ! i) (?P ! j)) (index_pairs (length ?P))"
    using filter_plain [of "self_L self" ?S ?P] by (simp only: rule2_def)
  have mem: "\<And>i j. i < length ?P \<Longrightarrow> j < length ?P \<Longrightarrow> i \<noteq> j \<Longrightarrow>
      convex_inequality (?P ! i) (?P ! j) \<in> set ?new"
  proof -
    fix i j
    assume "i < length ?P" "j < length ?P" "i \<noteq> j"
    then have "(i, j) \<in> set (index_pairs (length ?P))"
      by (simp add: set_index_pairs)
    then have "(\<lambda>(i, j). convex_inequality (?P ! i) (?P ! j)) (i, j) \<in> set (rule2 ?P)"
      unfolding rule2_def set_map by (rule imageI)
    then show "convex_inequality (?P ! i) (?P ! j) \<in> set ?new"
      by simp
  qed
  have both: "\<forall>i < length ?P. \<forall>j < length ?P. i \<noteq> j \<longrightarrow>
          convex_inequality (?P ! i) (?P ! j) \<in> set ?new
        \<and> convex_inequality (?P ! j) (?P ! i) \<in> set ?new
        \<and> (?P ! i \<noteq> ?P ! j \<longrightarrow>
              convex_inequality (?P ! i) (?P ! j) \<noteq> convex_inequality (?P ! j) (?P ! i))"
    using mem by (simp add: convex_inequality_directional)
  show ?thesis
    by (intro exI [of _ ?new] conjI) (rule run plain set_index_pairs distinct_index_pairs both)+
qed

lemma index_pairs_2: "index_pairs (Suc (Suc 0)) = [(0, Suc 0), (Suc 0, 0)]"
  by (simp add: index_pairs_def)

theorem convexity_cut_for_every_ordered_pair_witness:
  "self_L two_point_function \<noteq> 0
   \<and> (\<exists>new. add_class_constraints two_point_function =
          Inr (two_point_function\<lparr>list_of_constraints := new\<rparr>)
        \<and> filter (\<lambda>c. \<not> has_quadratic_correction c) new =
            [Geq (ESub (ELeaf 0) (ELeaf 1)) (EInner (PLeaf 2) (PSub (PLeaf 0) (PLeaf 1))),
             Geq (ESub (ELeaf 1) (ELeaf 0)) (EInner PNull (PSub (PLeaf 1) (PLeaf 0)))])"
proof -
  have h: "self_L two_point_function \<noteq> 0"
    by (simp add: two_point_function_def)
  have P: "list_of_points two_point_function =
      [(PLeaf 0, PNull, ELeaf 0), (PLeaf 1, PLeaf 2, ELeaf 1)]"
    and nil: "list_of_constraints two_point_function = []"
    by (simp_all add: two_point_function_def)
  from convexity_cut_for_every_ordered_pair [OF h] obtain new where
    r: "add_class_constraints two_point_function =
        Inr (two_point_function\<lparr>list_of_constraints :=
               list_of_constraints two_point_function @ new\<rparr>)"
    and q: "filter (\<lambda>c. \<not> has_quadratic_correction c) new =
        map (\<lambda>(i, j). convex_inequality (list_of_points two_point_function ! i)
                        (list_of_points two_point_function ! j))
          (index_pairs (length (list_of_points two_point_function)))"
    by blast
  from q have "filter (\<lambda>c. \<not> has_quadratic_correction c) new =
            [Geq (ESub (ELeaf 0) (ELeaf 1)) (EInner (PLeaf 2) (PSub (PLeaf 0) (PLeaf 1))),
             Geq (ESub (ELeaf 1) (ELeaf 0)) (EInner PNull (PSub (PLeaf 1) (PLeaf 0)))]"
    unfolding P by (simp add: index_pairs_2)
  with r h show ?thesis
    unfolding nil by auto
qed

subsection \<open>Dependence on the inputs only\<close>

text \<open>
  Claim C4. What one call of \<open>add_class_constraints\<close> does is determined by the growth
  parameter, the recorded list and the stationary list alone, whatever else the object
  holds: it appends \<open>interpolation_constraints L P S\<close> to the registered constraints, or
  raises. The call leaves the three inputs unchanged, so a second call on the result
  appends the very same sequence again.
\<close>

theorem add_class_constraints_deterministic:
  "add_class_constraints self =
     (case interpolation_constraints (self_L self) (list_of_points self)
             (list_of_stationary_points self) of
        Inl e \<Rightarrow> Inl e
      | Inr new \<Rightarrow> Inr (self\<lparr>list_of_constraints := list_of_constraints self @ new\<rparr>))
   \<and> (\<forall>self'. add_class_constraints self = Inr self' \<longrightarrow>
        (\<exists>new. list_of_constraints self' = list_of_constraints self @ new
          \<and> list_of_points self' = list_of_points self
          \<and> list_of_stationary_points self' = list_of_stationary_points self
          \<and> self_L self' = self_L self
          \<and> add_class_constraints self' =
              Inr (self'\<lparr>list_of_constraints := list_of_constraints self' @ new\<rparr>)))"
proof (intro conjI allI impI)
  show "add_class_constraints self =
     (case interpolation_constraints (self_L self) (list_of_points self)
             (list_of_stationary_points self) of
        Inl e \<Rightarrow> Inl e
      | Inr new \<Rightarrow> Inr (self\<lparr>list_of_constraints := list_of_constraints self @ new\<rparr>))"
    by (rule add_class_constraints_eq)
next
  fix self'
  assume r: "add_class_constraints self = Inr self'"
  then obtain new where
    new: "interpolation_constraints (self_L self) (list_of_points self)
            (list_of_stationary_points self) = Inr new"
    and self': "self' = self\<lparr>list_of_constraints := list_of_constraints self @ new\<rparr>"
    by (auto simp add: add_class_constraints_eq split: sum.splits)
  have "add_class_constraints self' =
      Inr (self'\<lparr>list_of_constraints := list_of_constraints self' @ new\<rparr>)"
    by (subst add_class_constraints_eq) (simp add: self' new)
  then show "\<exists>new. list_of_constraints self' = list_of_constraints self @ new
          \<and> list_of_points self' = list_of_points self
          \<and> list_of_stationary_points self' = list_of_stationary_points self
          \<and> self_L self' = self_L self
          \<and> add_class_constraints self' =
              Inr (self'\<lparr>list_of_constraints := list_of_constraints self' @ new\<rparr>)"
    by (intro exI [of _ new]) (simp add: self')
qed

theorem add_class_constraints_deterministic_witness:
  "\<exists>self' new. add_class_constraints example_function = Inr self'
     \<and> list_of_constraints self' = list_of_constraints example_function @ new
     \<and> add_class_constraints self' =
         Inr (self'\<lparr>list_of_constraints := list_of_constraints self' @ new\<rparr>)
     \<and> new \<noteq> []"
proof -
  note d = add_class_constraints_deterministic [of example_function]
  have "interpolation_constraints (self_L example_function) (list_of_points example_function)
          (list_of_stationary_points example_function) =
        Inr (rule1 1 (list_of_stationary_points example_function) (list_of_points example_function)
             @ rule2 (list_of_points example_function))"
    by (simp add: interpolation_constraints_def example_function_def)
  with d have r: "add_class_constraints example_function =
      Inr (example_function\<lparr>list_of_constraints := list_of_constraints example_function @
        (rule1 1 (list_of_stationary_points example_function) (list_of_points example_function)
             @ rule2 (list_of_points example_function))\<rparr>)"
    by simp
  have ne: "rule1 1 (list_of_stationary_points example_function) (list_of_points example_function)
       \<noteq> []"
    by (simp add: rule1_def stationary_pairs_def example_function_def)
  from d r obtain new where
    n: "list_of_constraints
          (example_function\<lparr>list_of_constraints := list_of_constraints example_function @
        (rule1 1 (list_of_stationary_points example_function) (list_of_points example_function)
             @ rule2 (list_of_points example_function))\<rparr>) = list_of_constraints example_function @ new"
    and a: "add_class_constraints (example_function\<lparr>list_of_constraints := list_of_constraints example_function @
        (rule1 1 (list_of_stationary_points example_function) (list_of_points example_function)
             @ rule2 (list_of_points example_function))\<rparr>) =
      Inr (example_function\<lparr>list_of_constraints := list_of_constraints example_function @
        (rule1 1 (list_of_stationary_points example_function) (list_of_points example_function)
             @ rule2 (list_of_points example_function))\<rparr>
           \<lparr>list_of_constraints := list_of_constraints (example_function\<lparr>list_of_constraints := list_of_constraints example_function @
        (rule1 1 (list_of_stationary_points example_function) (list_of_points example_function)
             @ rule2 (list_of_points example_function))\<rparr>) @ new\<rparr>)"
    by blast
  from n ne have "new \<noteq> []" by auto
  with r n a show ?thesis by blast
qed

section \<open>Properties of the unrollers\<close>

lemma py_range_Suc: "py_range (int (Suc t)) = py_range (int t) @ [int t]"
  by (simp add: py_range_def del: of_nat_Suc)

lemma py_range_nonpos: "n \<le> 0 \<Longrightarrow> py_range n = []"
  by (simp add: py_range_def)

lemma py_range_nat: "py_range n = py_range (int (nat n))"
  by (simp add: py_range_def)

lemma length_py_range: "length (py_range n) = nat n"
  by (simp add: py_range_def)

lemma py_range_split:
  "int t < n \<Longrightarrow> py_range n = py_range (int (Suc t)) @ drop (Suc t) (py_range n)"
proof -
  assume "int t < n"
  then have "Suc t \<le> nat n" by simp
  then have "take (Suc t) (py_range n) = py_range (int (Suc t))"
    unfolding py_range_def by (simp add: take_map min_def del: upt_Suc of_nat_Suc)
  then show ?thesis
    by (metis append_take_drop_id)
qed

lemma u_seq_pos: "0 < u_seq t"
proof (induction t)
  case 0
  show ?case by simp
next
  case (Suc t)
  have "0 \<le> sqrt ((u_seq t / 2)\<^sup>2 + 2)" by simp
  with Suc have "0 < u_seq t / 2 + sqrt ((u_seq t / 2)\<^sup>2 + 2)"
    by (intro add_pos_nonneg) simp_all
  then show ?case by simp
qed

lemma gd_loop_append:
  "gd_loop H L (xs @ ys) s =
     (case gd_loop H L xs s of Inl e \<Rightarrow> Inl e | Inr s' \<Rightarrow> gd_loop H L ys s')"
proof (induction xs arbitrary: s)
  case Nil
  show ?case by simp
next
  case (Cons i xs)
  obtain u x g f st where s: "s = (u, x, g, f, st)" by (cases s)
  show ?case
    unfolding s by (simp add: Cons.IH split: sum.splits prod.splits)
qed

lemma gd_body:
  assumes "L \<noteq> 0" and "0 < u"
  shows "gd_loop H L [i] (u, x, g, f, st) =
     Inr (u / 2 + sqrt ((u / 2)\<^sup>2 + 2),
          PSub x (PScale (1 / (L * (u / 2 + sqrt ((u / 2)\<^sup>2 + 2)))) g),
          fst (fst (func_oracle H (PSub x (PScale (1 / (L * (u / 2 + sqrt ((u / 2)\<^sup>2 + 2)))) g)) st)),
          snd (fst (func_oracle H (PSub x (PScale (1 / (L * (u / 2 + sqrt ((u / 2)\<^sup>2 + 2)))) g)) st)),
          snd (func_oracle H (PSub x (PScale (1 / (L * (u / 2 + sqrt ((u / 2)\<^sup>2 + 2)))) g)) st))"
proof -
  have nonneg: "\<not> (u / 2)\<^sup>2 + 2 < 0"
    by (simp add: not_less add_nonneg_nonneg)
  have "0 \<le> sqrt ((u / 2)\<^sup>2 + 2)" by simp
  with assms(2) have "0 < u / 2 + sqrt ((u / 2)\<^sup>2 + 2)"
    by (intro add_pos_nonneg) simp_all
  with assms(1) have nz: "L * (u / 2 + sqrt ((u / 2)\<^sup>2 + 2)) \<noteq> 0" by simp
  show ?thesis
    using nonneg nz by (simp add: py_sqrt_def truediv_def split: prod.splits)
qed

lemma gd_body_zero:
  "gd_loop H 0 (i # rest) (u, x, g, f, st) = Inl ZeroDivisionError"
proof -
  have nonneg: "\<not> (u / 2)\<^sup>2 + 2 < 0"
    by (simp add: not_less add_nonneg_nonneg)
  then show ?thesis
    by (simp add: py_sqrt_def truediv_def)
qed

lemma gd_loop_run:
  assumes "L \<noteq> 0"
  shows "\<exists>x g f st. gd_loop H L (py_range (int t)) (1, x0, g0, f0, st0) = Inr (u_seq t, x, g, f, st)"
proof (induction t)
  case 0
  show ?case by (simp add: py_range_def)
next
  case (Suc t)
  then obtain x g f st where
    st: "gd_loop H L (py_range (int t)) (1, x0, g0, f0, st0) = Inr (u_seq t, x, g, f, st)"
    by blast
  show ?case
    unfolding py_range_Suc gd_loop_append st
    using gd_body [OF assms u_seq_pos, of H "int t" t x g f st] by simp
qed


lemma u_seq_step: "u_seq t \<le> u_seq (Suc t)"
proof -
  have "sqrt ((u_seq t / 2)\<^sup>2) \<le> sqrt ((u_seq t / 2)\<^sup>2 + 2)"
    by (rule real_sqrt_le_mono) simp
  then have "u_seq t / 2 \<le> sqrt ((u_seq t / 2)\<^sup>2 + 2)"
    by simp
  then show ?thesis by simp
qed

lemma hb_loop_append:
  "hb_loop H L (xs @ ys) s =
     (case hb_loop H L xs s of Inl e \<Rightarrow> Inl e | Inr s' \<Rightarrow> hb_loop H L ys s')"
proof (induction xs arbitrary: s)
  case Nil
  show ?case by simp
next
  case (Cons i xs)
  obtain x_new x_old st where s: "s = (x_new, x_old, st)" by (cases s)
  show ?case
    unfolding s by (simp add: Cons.IH split: sum.splits prod.splits)
qed

lemma hb_body:
  assumes "L \<noteq> 0" and "0 \<le> t"
  shows "hb_loop H L [t] (x_new, x_old, st) =
     Inr (PAdd (PSub x_new (PScale (1 / (L * (real_of_int t + 2))) (fst (func_gradient H x_new st))))
               (PScale (real_of_int t / (real_of_int t + 2)) (PSub x_new x_old)),
          x_new, snd (func_gradient H x_new st))"
proof -
  from assms(2) have "real_of_int t + 2 \<noteq> 0" by linarith
  with assms(1) show ?thesis
    by (simp add: truediv_def split: prod.splits)
qed

lemma hb_body_zero: "hb_loop H 0 (t # rest) (x_new, x_old, st) = Inl ZeroDivisionError"
  by (simp add: truediv_def)

lemma hb_loop_run:
  assumes "L \<noteq> 0"
  shows "\<exists>x_t x_prev st. hb_loop H L (py_range (int t)) (x0, x0, st0) = Inr (x_t, x_prev, st)
            \<and> (t = 0 \<longrightarrow> x_t = x0 \<and> x_prev = x0)"
proof (induction t)
  case 0
  show ?case by (simp add: py_range_def)
next
  case (Suc t)
  then obtain x_t x_prev st where
    st: "hb_loop H L (py_range (int t)) (x0, x0, st0) = Inr (x_t, x_prev, st)"
    by blast
  show ?case
    unfolding py_range_Suc hb_loop_append st
    using hb_body [OF assms, of "int t" H x_t x_prev st] by simp
qed

lemma cg_loop_append: "cg_loop H (xs @ ys) s = cg_loop H ys (cg_loop H xs s)"
proof (induction xs arbitrary: s)
  case Nil
  show ?case by simp
next
  case (Cons i xs)
  obtain x_new fx sp st where s: "s = (x_new, fx, sp, st)" by (cases s)
  show ?case
    unfolding s by (simp add: Cons.IH split: prod.splits)
qed

lemma cg_body:
  "cg_loop H [i] (x_new, fx, sp, st) =
     (fst (fst (exact_linesearch_step H x_new sp st)),
      Some (snd (snd (fst (exact_linesearch_step H x_new sp st)))),
      sp @ [fst (snd (fst (exact_linesearch_step H x_new sp st))),
            PSub x_new (fst (fst (exact_linesearch_step H x_new sp st)))],
      snd (exact_linesearch_step H x_new sp st))"
  by (simp split: prod.splits)

lemma init_ok:
  "ConvexQGFunction_init [''L'' \<mapsto> L] a b c =
     Inr \<lparr>is_leaf = a, decomposition_dict = b, reuse_gradient = c, list_of_points = [],
          list_of_stationary_points = [], list_of_constraints = [], self_L = L\<rparr>"
  by (simp add: ConvexQGFunction_init_def)

lemma gd_setup_ok: "\<exists>fs x g f st. gd_setup H L = Inr (fs, x, g, f, st)"
  by (simp add: gd_setup_def init_ok split: prod.splits)

lemma hb_setup_ok: "\<exists>fs x0 st. hb_setup H L = Inr (fs, x0, st)"
  by (simp add: hb_setup_def init_ok split: prod.splits)

lemma cg_setup_ok: "\<exists>fs x0 g0 st. cg_setup H L = Inr (fs, x0, g0, st)"
  by (simp add: cg_setup_def init_ok split: prod.splits)

lemma wc_gd_result:
  assumes "L \<noteq> 0 \<or> n \<le> 0"
  shows "\<exists>st. wc_gradient_descent_qg_convex_decreasing H L n verbose =
      (case solve H (max verbose 0) st of
         Inl e \<Rightarrow> Inl e
       | Inr pepit_tau \<Rightarrow> Inr (pepit_tau, L / (2 * u_seq (nat n))))"
proof -
  obtain fs x g f st where su: "gd_setup H L = Inr (fs, x, g, f, st)"
    using gd_setup_ok [of H] by blast
  have "\<exists>x' g' f' st'. gd_loop H L (py_range n) (1, x, g, f, st) = Inr (u_seq (nat n), x', g', f', st')"
  proof (cases "L = 0")
    case True
    with assms have "n \<le> 0" by simp
    then show ?thesis by (simp add: py_range_def)
  next
    case False
    show ?thesis
      by (subst py_range_nat) (rule gd_loop_run [OF False])
  qed
  then obtain x' g' f' st' where
    loop: "gd_loop H L (py_range n) (1, x, g, f, st) = Inr (u_seq (nat n), x', g', f', st')"
    by blast
  have "2 * u_seq (nat n) \<noteq> 0"
    using u_seq_pos [of "nat n"] by simp
  then have "wc_gradient_descent_qg_convex_decreasing H L n verbose =
      (case solve H (max verbose 0) (set_performance_metric H (ESub f' fs) st') of
         Inl e \<Rightarrow> Inl e
       | Inr pepit_tau \<Rightarrow> Inr (pepit_tau, L / (2 * u_seq (nat n))))"
    by (simp add: wc_gradient_descent_qg_convex_decreasing_def su loop truediv_def)
  then show ?thesis by blast
qed

lemma wc_gd_zero:
  assumes "1 \<le> n"
  shows "wc_gradient_descent_qg_convex_decreasing H 0 n verbose = Inl ZeroDivisionError"
proof -
  obtain fs x g f st where su: "gd_setup H 0 = Inr (fs, x, g, f, st)"
    using gd_setup_ok [of H] by blast
  from assms obtain rest where r: "py_range n = 0 # rest"
    by (cases "nat n") (simp_all add: py_range_def upt_rec)
  show ?thesis
    by (simp add: wc_gradient_descent_qg_convex_decreasing_def su r gd_body_zero
        del: gd_loop.simps)
qed


lemma wc_hb_result:
  assumes "L \<noteq> 0 \<or> n \<le> 0" and "n \<noteq> - 1"
  shows "\<exists>fs x0 st0 x_n x_old st_n.
      hb_setup H L = Inr (fs, x0, st0)
    \<and> hb_loop H L (py_range n) (x0, x0, st0) = Inr (x_n, x_old, st_n)
    \<and> wc_heavy_ball_momentum_qg_convex H L n verbose =
        (case solve H (max verbose 0) (snd (hb_metric H fs x_n st_n)) of
           Inl e \<Rightarrow> Inl e
         | Inr pepit_tau \<Rightarrow> Inr (pepit_tau, L / (2 * (real_of_int n + 1))))"
proof -
  obtain fs x0 st0 where su: "hb_setup H L = Inr (fs, x0, st0)"
    using hb_setup_ok [of H] by blast
  have "\<exists>x_n x_old st_n. hb_loop H L (py_range n) (x0, x0, st0) = Inr (x_n, x_old, st_n)"
  proof (cases "L = 0")
    case True
    with assms have "n \<le> 0" by simp
    then show ?thesis by (simp add: py_range_def)
  next
    case False
    from hb_loop_run [OF False, of H "nat n" x0 st0] show ?thesis
      by (subst py_range_nat) blast
  qed
  then obtain x_n x_old st_n where
    loop: "hb_loop H L (py_range n) (x0, x0, st0) = Inr (x_n, x_old, st_n)"
    by blast
  from assms(2) have "n + 1 \<noteq> 0" by simp
  then have "real_of_int (n + 1) \<noteq> 0" by (simp only: of_int_eq_0_iff not_False_eq_True)
  then have "real_of_int n + 1 \<noteq> 0" by simp
  then have "wc_heavy_ball_momentum_qg_convex H L n verbose =
      (case solve H (max verbose 0) (snd (hb_metric H fs x_n st_n)) of
         Inl e \<Rightarrow> Inl e
       | Inr pepit_tau \<Rightarrow> Inr (pepit_tau, L / (2 * (real_of_int n + 1))))"
    by (simp add: wc_heavy_ball_momentum_qg_convex_def su loop truediv_def
        split: sum.splits)
  with su loop show ?thesis by blast
qed

lemma wc_hb_zero:
  assumes "1 \<le> n"
  shows "wc_heavy_ball_momentum_qg_convex H 0 n verbose = Inl ZeroDivisionError"
proof -
  obtain fs x0 st0 where su: "hb_setup H 0 = Inr (fs, x0, st0)"
    using hb_setup_ok [of H] by blast
  from assms obtain rest where r: "py_range n = 0 # rest"
    by (cases "nat n") (simp_all add: py_range_def upt_rec)
  show ?thesis
    by (simp add: wc_heavy_ball_momentum_qg_convex_def su r hb_body_zero
        del: hb_loop.simps)
qed

lemma cg_loop_last:
  assumes "1 \<le> n"
  shows "\<exists>x_prev fx_prev sp_prev st_prev x_n gx fx st_n.
      cg_loop H (py_range (n - 1)) s0 = (x_prev, fx_prev, sp_prev, st_prev)
    \<and> exact_linesearch_step H x_prev sp_prev st_prev = ((x_n, gx, fx), st_n)
    \<and> cg_loop H (py_range n) s0 = (x_n, Some fx, sp_prev @ [gx, PSub x_prev x_n], st_n)"
proof -
  define t where "t = nat (n - 1)"
  with assms have n: "n = int (Suc t)" by simp
  have n1: "n - 1 = int t" using n by simp
  obtain x_prev fx_prev sp_prev st_prev where
    prev: "cg_loop H (py_range (int t)) s0 = (x_prev, fx_prev, sp_prev, st_prev)"
    by (cases "cg_loop H (py_range (int t)) s0")
  obtain x_n gx fx st_n where
    step: "exact_linesearch_step H x_prev sp_prev st_prev = ((x_n, gx, fx), st_n)"
    by (cases "exact_linesearch_step H x_prev sp_prev st_prev") auto
  have "cg_loop H (py_range n) s0 = (x_n, Some fx, sp_prev @ [gx, PSub x_prev x_n], st_n)"
    unfolding n py_range_Suc cg_loop_append prev by (simp add: step)
  with prev step show ?thesis unfolding n1 by blast
qed

lemma wc_cg_nonpos:
  assumes "n \<le> 0"
  shows "wc_conjugate_gradient_qg_convex H L n verbose = Inl NameError"
proof -
  obtain fs x0 g0 st0 where su: "cg_setup H L = Inr (fs, x0, g0, st0)"
    using cg_setup_ok [of H] by blast
  show ?thesis
    by (simp add: wc_conjugate_gradient_qg_convex_def su py_range_nonpos [OF assms]
        cg_metric_def)
qed

lemma wc_cg_result:
  assumes "1 \<le> n"
  shows "\<exists>fs x0 g0 st0 x_prev fx_prev sp_prev st_prev x_n gx fx st_n.
      cg_setup H L = Inr (fs, x0, g0, st0)
    \<and> cg_loop H (py_range (n - 1)) (x0, None, [g0], st0) = (x_prev, fx_prev, sp_prev, st_prev)
    \<and> exact_linesearch_step H x_prev sp_prev st_prev = ((x_n, gx, fx), st_n)
    \<and> cg_loop H (py_range n) (x0, None, [g0], st0)
         = (x_n, Some fx, sp_prev @ [gx, PSub x_prev x_n], st_n)
    \<and> cg_metric H fs (Some fx) st_n
         = Inr (ESub fx fs, set_performance_metric H (ESub fx fs) st_n)
    \<and> wc_conjugate_gradient_qg_convex H L n verbose =
        (case solve H (max verbose 0) (set_performance_metric H (ESub fx fs) st_n) of
           Inl e \<Rightarrow> Inl e
         | Inr pepit_tau \<Rightarrow> Inr (pepit_tau, L / (2 * (real_of_int n + 1))))"
proof -
  obtain fs x0 g0 st0 where su: "cg_setup H L = Inr (fs, x0, g0, st0)"
    using cg_setup_ok [of H] by blast
  from cg_loop_last [OF assms, of H "(x0, None, [g0], st0)"]
  obtain x_prev fx_prev sp_prev st_prev x_n gx fx st_n where
    prev: "cg_loop H (py_range (n - 1)) (x0, None, [g0], st0) = (x_prev, fx_prev, sp_prev, st_prev)"
    and step: "exact_linesearch_step H x_prev sp_prev st_prev = ((x_n, gx, fx), st_n)"
    and loop: "cg_loop H (py_range n) (x0, None, [g0], st0)
         = (x_n, Some fx, sp_prev @ [gx, PSub x_prev x_n], st_n)"
    by blast
  have metric: "cg_metric H fs (Some fx) st_n
         = Inr (ESub fx fs, set_performance_metric H (ESub fx fs) st_n)"
    by (simp add: cg_metric_def)
  from assms have "real_of_int n + 1 \<noteq> 0" by linarith
  then have "wc_conjugate_gradient_qg_convex H L n verbose =
        (case solve H (max verbose 0) (set_performance_metric H (ESub fx fs) st_n) of
           Inl e \<Rightarrow> Inl e
         | Inr pepit_tau \<Rightarrow> Inr (pepit_tau, L / (2 * (real_of_int n + 1))))"
    by (simp add: wc_conjugate_gradient_qg_convex_def su loop metric truediv_def
        split: sum.splits)
  with su prev step loop metric show ?thesis by blast
qed

lemma gd_loop_zero:
  "gd_loop H 0 (py_range (int (Suc t))) (u, x, g, f, st) = Inl ZeroDivisionError"
proof -
  obtain rest where r: "py_range (int (Suc t)) = 0 # rest"
    by (simp add: py_range_def upt_rec del: of_nat_Suc upt_Suc)
  show ?thesis unfolding r by (rule gd_body_zero)
qed

lemma hb_setup_fs:
  assumes "hb_setup H L = Inr (fs, x0, st)"
  shows "\<exists>func xs st1 st2.
      ConvexQGFunction_init [''L'' \<mapsto> L] True None False = Inr func
    \<and> self_L func = L
    \<and> func_stationary_point H (declare_function H func (new_PEP H)) = (xs, st1)
    \<and> func_value H xs st1 = (fs, st2)"
  using assms by (auto simp add: hb_setup_def init_ok split: prod.splits)

lemma cg_setup_fs:
  assumes "cg_setup H L = Inr (fs, x0, g0, st)"
  shows "\<exists>func xs st1 st2.
      ConvexQGFunction_init [''L'' \<mapsto> L] True None False = Inr func
    \<and> self_L func = L
    \<and> func_stationary_point H (declare_function H func (new_PEP H)) = (xs, st1)
    \<and> func_value H xs st1 = (fs, st2)"
  using assms by (auto simp add: cg_setup_def init_ok split: prod.splits)

lemma gd_loop_scalar:
  "case gd_loop H L (py_range (int t)) (1, x0, g0, f0, st0) of
         Inl e \<Rightarrow> L = 0 \<and> 0 < t \<and> e = ZeroDivisionError
       | Inr (u, x, g, f, st) \<Rightarrow> u = u_seq t"
proof (cases "L = 0")
  case False
  from gd_loop_run [OF False, of H t x0 g0 f0 st0] show ?thesis by auto
next
  case True
  show ?thesis
  proof (cases t)
    case 0
    then show ?thesis by (simp add: py_range_def)
  next
    case (Suc k)
    show ?thesis unfolding True Suc gd_loop_zero by simp
  qed
qed

lemma wc_cg_bound:
  "wc_conjugate_gradient_qg_convex H L n verbose = Inr (tau, th)
     \<Longrightarrow> th = L / (2 * (real_of_int n + 1))"
  by (auto simp add: wc_conjugate_gradient_qg_convex_def truediv_def
      split: sum.splits prod.splits if_splits)

lemma wc_hb_bound:
  "wc_heavy_ball_momentum_qg_convex H L n verbose = Inr (tau, th)
     \<Longrightarrow> th = L / (2 * (real_of_int n + 1))"
  by (auto simp add: wc_heavy_ball_momentum_qg_convex_def truediv_def
      split: sum.splits prod.splits if_splits)

lemma wc_gd_bound:
  assumes "wc_gradient_descent_qg_convex_decreasing H L n verbose = Inr (tau, th)"
  shows "th = L / (2 * u_seq (nat n))"
proof -
  obtain fs x g f st where su: "gd_setup H L = Inr (fs, x, g, f, st)"
    using gd_setup_ok [of H] by blast
  from assms obtain u x' g' f' st' where
    loop: "gd_loop H L (py_range n) (1, x, g, f, st) = Inr (u, x', g', f', st')"
    and th: "th = L / (2 * u)"
    by (auto simp add: wc_gradient_descent_qg_convex_decreasing_def su truediv_def
        split: sum.splits prod.splits if_splits)
  from loop have "gd_loop H L (py_range (int (nat n))) (1, x, g, f, st) = Inr (u, x', g', f', st')"
    by (simp only: py_range_nat [symmetric])
  with gd_loop_scalar [where H = H and L = L and t = "nat n" and ?x0.0 = x and ?g0.0 = g
      and ?f0.0 = f and ?st0.0 = st] have "u = u_seq (nat n)"
    by simp
  with th show ?thesis by simp
qed

lemma gd_setup_parts:
  assumes "gd_setup H L = Inr (fs, x0, g0, f0, st0)"
  shows "\<exists>func xs st1 st2 st3 st4.
      ConvexQGFunction_init [''L'' \<mapsto> L] True None False = Inr func
    \<and> func_stationary_point H (declare_function H func (new_PEP H)) = (xs, st1)
    \<and> func_value H xs st1 = (fs, st2)
    \<and> set_initial_point H st2 = (x0, st3)
    \<and> func_oracle H x0 st3 = ((g0, f0), st4)
    \<and> st0 = set_initial_condition H (Leq (ESquare (PSub x0 xs)) (EConst 1)) st4"
  using assms by (auto simp add: gd_setup_def init_ok split: prod.splits)

lemma wc_gd_run:
  assumes "L \<noteq> 0 \<or> n \<le> 0" and "gd_setup H L = Inr (fs, x0, g0, f0, st0)"
  shows "\<exists>x_n g_n f_n st_n.
      gd_loop H L (py_range n) (1, x0, g0, f0, st0) = Inr (u_seq (nat n), x_n, g_n, f_n, st_n)
    \<and> wc_gradient_descent_qg_convex_decreasing H L n verbose =
        (case solve H (max verbose 0) (set_performance_metric H (ESub f_n fs) st_n) of
           Inl e \<Rightarrow> Inl e
         | Inr pepit_tau \<Rightarrow> Inr (pepit_tau, L / (2 * u_seq (nat n))))"
proof -
  have "\<exists>x_n g_n f_n st_n.
      gd_loop H L (py_range n) (1, x0, g0, f0, st0) = Inr (u_seq (nat n), x_n, g_n, f_n, st_n)"
  proof (cases "L = 0")
    case True
    with assms(1) have "n \<le> 0" by simp
    then show ?thesis by (simp add: py_range_def)
  next
    case False
    show ?thesis
      by (subst py_range_nat) (rule gd_loop_run [OF False])
  qed
  then obtain x_n g_n f_n st_n where
    loop: "gd_loop H L (py_range n) (1, x0, g0, f0, st0) = Inr (u_seq (nat n), x_n, g_n, f_n, st_n)"
    by blast
  have "2 * u_seq (nat n) \<noteq> 0"
    using u_seq_pos [of "nat n"] by simp
  then have "wc_gradient_descent_qg_convex_decreasing H L n verbose =
      (case solve H (max verbose 0) (set_performance_metric H (ESub f_n fs) st_n) of
         Inl e \<Rightarrow> Inl e
       | Inr pepit_tau \<Rightarrow> Inr (pepit_tau, L / (2 * u_seq (nat n))))"
    by (simp add: wc_gradient_descent_qg_convex_decreasing_def assms(2) loop truediv_def)
  with loop show ?thesis by blast
qed

lemma wc_hb_minus_one:
  "\<exists>st. wc_heavy_ball_momentum_qg_convex H L (- 1) verbose =
      (case solve H (max verbose 0) st of
         Inl e \<Rightarrow> Inl e
       | Inr pepit_tau \<Rightarrow> Inl ZeroDivisionError)"
proof -
  obtain fs x0 st0 where su: "hb_setup H L = Inr (fs, x0, st0)"
    using hb_setup_ok [of H] by blast
  have "wc_heavy_ball_momentum_qg_convex H L (- 1) verbose =
      (case solve H (max verbose 0) (snd (hb_metric H fs x0 st0)) of
         Inl e \<Rightarrow> Inl e
       | Inr pepit_tau \<Rightarrow> Inl ZeroDivisionError)"
    by (simp add: wc_heavy_ball_momentum_qg_convex_def su py_range_def truediv_def
        split: sum.splits)
  then show ?thesis by blast
qed

subsection \<open>The step sizes of gradient descent\<close>

text \<open>
  Claim C5. With \<open>L\<close> not zero, \<open>wc_gradient_descent_qg_convex_decreasing\<close> sets the
  problem up (minimiser, starting point \<open>x\<^sub>0\<close>, oracle call at \<open>x\<^sub>0\<close>, initial condition),
  starts the loop with \<open>u = 1\<close> on the oracle's answer at \<open>x\<^sub>0\<close> and runs it over
  \<open>range(n)\<close>. After \<open>t < n\<close> iterations the loop holds the scalar \<open>u\<^sub>t\<close>; iteration \<open>t\<close>
  then moves the iterate to \<open>x - \<gamma> g\<close> with \<open>\<gamma> = 1 / (L u\<^sub>t\<^sub>+\<^sub>1)\<close>, calls the oracle at the
  new iterate, and the run goes on from there. The state the loop ends in, with scalar
  \<open>u\<^sub>n\<close>, is the one whose last value enters the metric handed to the solver, and the pair
  returned is the solver's answer with \<open>L / (2 u\<^sub>n)\<close>. The scalar starts at \<open>u\<^sub>0 = 1\<close> and
  follows the recurrence.
\<close>

theorem gd_step_size:
  assumes "L \<noteq> 0" and "int t < n"
  shows "\<exists>fs x0 g0 f0 st0.
      gd_setup H L = Inr (fs, x0, g0, f0, st0)
    \<and> (\<exists>func xs st1 st2 st3 st4.
          ConvexQGFunction_init [''L'' \<mapsto> L] True None False = Inr func
        \<and> func_stationary_point H (declare_function H func (new_PEP H)) = (xs, st1)
        \<and> func_value H xs st1 = (fs, st2)
        \<and> set_initial_point H st2 = (x0, st3)
        \<and> func_oracle H x0 st3 = ((g0, f0), st4)
        \<and> st0 = set_initial_condition H (Leq (ESquare (PSub x0 xs)) (EConst 1)) st4)
    \<and> gd_loop H L (py_range 0) (1, x0, g0, f0, st0) = Inr (1, x0, g0, f0, st0)
    \<and> (\<exists>x g f st g' f' st'.
          gd_loop H L (py_range (int t)) (1, x0, g0, f0, st0) = Inr (u_seq t, x, g, f, st)
        \<and> func_oracle H (PSub x (PScale (1 / (L * u_seq (Suc t))) g)) st = ((g', f'), st')
        \<and> gd_loop H L (py_range (int (Suc t))) (1, x0, g0, f0, st0) =
            Inr (u_seq (Suc t), PSub x (PScale (1 / (L * u_seq (Suc t))) g), g', f', st')
        \<and> gd_loop H L (py_range n) (1, x0, g0, f0, st0) =
            gd_loop H L (drop (Suc t) (py_range n))
              (u_seq (Suc t), PSub x (PScale (1 / (L * u_seq (Suc t))) g), g', f', st'))
    \<and> (\<exists>x_n g_n f_n st_n.
          gd_loop H L (py_range n) (1, x0, g0, f0, st0) = Inr (u_seq (nat n), x_n, g_n, f_n, st_n)
        \<and> wc_gradient_descent_qg_convex_decreasing H L n verbose =
            (case solve H (max verbose 0) (set_performance_metric H (ESub f_n fs) st_n) of
               Inl e \<Rightarrow> Inl e
             | Inr pepit_tau \<Rightarrow> Inr (pepit_tau, L / (2 * u_seq (nat n)))))
    \<and> u_seq 0 = 1
    \<and> u_seq (Suc t) = u_seq t / 2 + sqrt ((u_seq t / 2)\<^sup>2 + 2)"
proof -
  obtain fs x0 g0 f0 st0 where su: "gd_setup H L = Inr (fs, x0, g0, f0, st0)"
    using gd_setup_ok [of H] by blast
  note parts = gd_setup_parts [OF su]
  have start: "gd_loop H L (py_range 0) (1, x0, g0, f0, st0) = Inr (1, x0, g0, f0, st0)"
    by (simp add: py_range_def)
  obtain x g f st where
    prev: "gd_loop H L (py_range (int t)) (1, x0, g0, f0, st0) = Inr (u_seq t, x, g, f, st)"
    using gd_loop_run [OF assms(1), of H t x0 g0 f0 st0] by blast
  let ?x' = "PSub x (PScale (1 / (L * u_seq (Suc t))) g)"
  obtain g' f' st' where orc: "func_oracle H ?x' st = ((g', f'), st')"
    by (cases "func_oracle H ?x' st") auto
  have step: "gd_loop H L (py_range (int (Suc t))) (1, x0, g0, f0, st0) =
      Inr (u_seq (Suc t), ?x', g', f', st')"
    unfolding py_range_Suc gd_loop_append prev
    using gd_body [OF assms(1) u_seq_pos, of H "int t" t x g f st] orc by simp
  have rest: "gd_loop H L (py_range n) (1, x0, g0, f0, st0) =
      gd_loop H L (drop (Suc t) (py_range n)) (u_seq (Suc t), ?x', g', f', st')"
    by (subst py_range_split [OF assms(2)]) (simp only: gd_loop_append step sum.case)
  have iter: "\<exists>x g f st g' f' st'.
          gd_loop H L (py_range (int t)) (1, x0, g0, f0, st0) = Inr (u_seq t, x, g, f, st)
        \<and> func_oracle H (PSub x (PScale (1 / (L * u_seq (Suc t))) g)) st = ((g', f'), st')
        \<and> gd_loop H L (py_range (int (Suc t))) (1, x0, g0, f0, st0) =
            Inr (u_seq (Suc t), PSub x (PScale (1 / (L * u_seq (Suc t))) g), g', f', st')
        \<and> gd_loop H L (py_range n) (1, x0, g0, f0, st0) =
            gd_loop H L (drop (Suc t) (py_range n))
              (u_seq (Suc t), PSub x (PScale (1 / (L * u_seq (Suc t))) g), g', f', st')"
    using prev orc step rest by blast
  from assms(1) have a: "L \<noteq> 0 \<or> n \<le> 0" by simp
  note entry = wc_gd_run [OF a su, of verbose]
  have u0: "u_seq 0 = 1" by simp
  have u1: "u_seq (Suc t) = u_seq t / 2 + sqrt ((u_seq t / 2)\<^sup>2 + 2)" by simp
  note body = conjI [OF su conjI [OF parts conjI [OF start conjI [OF iter
      conjI [OF entry conjI [OF u0 u1]]]]]]
  show ?thesis
    by (intro exI) (rule body)
qed

lemma u_seq_1: "u_seq (Suc 0) = 2"
proof -
  have "sqrt ((1 / 2)\<^sup>2 + 2) = 3 / 2"
    by (rule real_sqrt_unique) (simp_all add: power2_eq_square)
  then show ?thesis by simp
qed

theorem gd_step_size_witness:
  "(1::real) \<noteq> 0 \<and> int 0 < 2
   \<and> wc_gradient_descent_qg_convex_decreasing example_harness 1 2 1
       = Inr (1 / 10, 1 / (2 * u_seq 2))
   \<and> (\<exists>fs f0 st0 g' f' st'.
         gd_setup example_harness 1 = Inr (fs, PLeaf 6, PLeaf 8, f0, st0)
       \<and> gd_loop example_harness 1 (py_range (int (Suc 0))) (1, PLeaf 6, PLeaf 8, f0, st0) =
           Inr (2, PSub (PLeaf 6) (PScale (1 / 2) (PLeaf 8)), g', f', st'))"
proof -
  have h1: "(1::real) \<noteq> 0" and h2: "int 0 < 2" by simp_all
  have sv: "\<And>v st. solve example_harness v st = Inr (1 / 10)"
    by (simp add: example_harness_def logging_harness_def)
  have n2: "nat 2 = 2" by simp
  have su: "\<exists>fs f0 st0. gd_setup example_harness 1 = Inr (fs, PLeaf 6, PLeaf 8, f0, st0)"
    by (simp add: gd_setup_def init_ok example_harness_def logging_harness_def)
  from gd_step_size [OF h1 h2, of example_harness 1]
  obtain fs x0 g0 f0 st0 x g f st g' f' st' x_n g_n f_n st_n where
    su': "gd_setup example_harness 1 = Inr (fs, x0, g0, f0, st0)"
    and l0: "gd_loop example_harness 1 (py_range (int 0)) (1, x0, g0, f0, st0) =
               Inr (u_seq 0, x, g, f, st)"
    and l1: "gd_loop example_harness 1 (py_range (int (Suc 0))) (1, x0, g0, f0, st0) =
            Inr (u_seq (Suc 0), PSub x (PScale (1 / (1 * u_seq (Suc 0))) g), g', f', st')"
    and wc: "wc_gradient_descent_qg_convex_decreasing example_harness 1 2 1 =
            (case solve example_harness (max 1 0)
                    (set_performance_metric example_harness (ESub f_n fs) st_n) of
               Inl e \<Rightarrow> Inl e
             | Inr pepit_tau \<Rightarrow> Inr (pepit_tau, 1 / (2 * u_seq (nat 2))))"
    by blast
  from wc have ret: "wc_gradient_descent_qg_convex_decreasing example_harness 1 2 1
       = Inr (1 / 10, 1 / (2 * u_seq 2))"
    unfolding sv n2 by simp
  from su su' have x0: "x0 = PLeaf 6" "g0 = PLeaf 8" by auto
  from l0 have x: "x = x0" "g = g0" by (simp_all add: py_range_def)
  from l1 have "gd_loop example_harness 1 (py_range (int (Suc 0))) (1, PLeaf 6, PLeaf 8, f0, st0) =
            Inr (2, PSub (PLeaf 6) (PScale (1 / 2) (PLeaf 8)), g', f', st')"
    unfolding x x0 u_seq_1 by simp
  with su' have ex: "\<exists>fs f0 st0 g' f' st'.
         gd_setup example_harness 1 = Inr (fs, PLeaf 6, PLeaf 8, f0, st0)
       \<and> gd_loop example_harness 1 (py_range (int (Suc 0))) (1, PLeaf 6, PLeaf 8, f0, st0) =
           Inr (2, PSub (PLeaf 6) (PScale (1 / 2) (PLeaf 8)), g', f', st')"
    unfolding x0 by blast
  show ?thesis
    by (intro conjI h1 h2 ret ex)
qed

subsection \<open>Growth of the scalar sequence\<close>

text \<open>
  Claim C7. The sequence \<open>u\<close> never decreases, and it is the scalar the loop holds: after
  \<open>t\<close> iterations the loop variable \<open>u\<close> equals \<open>u\<^sub>t\<close> (the loop stops with a division
  error only when \<open>L = 0\<close> and \<open>t > 0\<close>).
\<close>

theorem u_seq_nondecreasing:
  "u_seq t \<le> u_seq (Suc t)
   \<and> (case gd_loop H L (py_range (int t)) (1, x0, g0, f0, st0) of
         Inl e \<Rightarrow> L = 0 \<and> 0 < t \<and> e = ZeroDivisionError
       | Inr (u, x, g, f, st) \<Rightarrow> u = u_seq t)"
  using u_seq_step [of t]
    gd_loop_scalar [where H = H and L = L and t = t and ?x0.0 = x0 and ?g0.0 = g0
      and ?f0.0 = f0 and ?st0.0 = st0]
  by (rule conjI)

theorem u_seq_nondecreasing_witness:
  "u_seq 0 \<le> u_seq (Suc 0) \<and> u_seq 0 = 1 \<and> u_seq (Suc 0) = 2
   \<and> (\<exists>x g f st. gd_loop example_harness 1 (py_range (int (Suc 0)))
          (1, PLeaf 6, PLeaf 8, ELeaf 9, []) = Inr (2, x, g, f, st))"
proof -
  from u_seq_nondecreasing [where t = 0 and H = example_harness and L = 1
      and ?x0.0 = "PLeaf 6" and ?g0.0 = "PLeaf 8" and ?f0.0 = "ELeaf 9" and ?st0.0 = "[]"]
  have a: "u_seq 0 \<le> u_seq (Suc 0)" by simp
  from u_seq_nondecreasing [where t = "Suc 0" and H = example_harness and L = 1
      and ?x0.0 = "PLeaf 6" and ?g0.0 = "PLeaf 8" and ?f0.0 = "ELeaf 9" and ?st0.0 = "[]"]
  have b: "\<exists>x g f st. gd_loop example_harness 1 (py_range (int (Suc 0)))
          (1, PLeaf 6, PLeaf 8, ELeaf 9, []) = Inr (2, x, g, f, st)"
    unfolding u_seq_1 by (auto split: sum.splits)
  show ?thesis
    by (intro conjI a b u_seq_1) simp
qed

subsection \<open>The heavy-ball iteration\<close>

text \<open>
  Claim C6. With \<open>L\<close> not zero, the loop starts from \<open>x_new = x_old = x\<^sub>0\<close>; after
  \<open>t < n\<close> iterations it holds the current iterate and the one before, and iteration \<open>t\<close>
  requests the gradient at the current iterate and moves to
  \<open>x\<^sub>t - (1 / (L (t + 2))) g + (t / (t + 2)) (x\<^sub>t - x\<^sub>t\<^sub>-\<^sub>1)\<close>, keeping \<open>x\<^sub>t\<close> as the only earlier
  iterate. After the loop the value at the last iterate is requested and the metric
  registered is that value minus the value at the stationary point; the solver receives
  the state so obtained.
\<close>

theorem hb_iteration:
  assumes "L \<noteq> 0"
  shows "\<exists>fs x0 st0.
      hb_setup H L = Inr (fs, x0, st0)
    \<and> (\<exists>func xs st1 st2.
          ConvexQGFunction_init [''L'' \<mapsto> L] True None False = Inr func
        \<and> func_stationary_point H (declare_function H func (new_PEP H)) = (xs, st1)
        \<and> func_value H xs st1 = (fs, st2))
    \<and> hb_loop H L (py_range 0) (x0, x0, st0) = Inr (x0, x0, st0)
    \<and> (\<forall>t. int t < n \<longrightarrow>
          (\<exists>x_t x_prev st gr st'.
              hb_loop H L (py_range (int t)) (x0, x0, st0) = Inr (x_t, x_prev, st)
            \<and> func_gradient H x_t st = (gr, st')
            \<and> hb_loop H L (py_range (int (Suc t))) (x0, x0, st0) =
                Inr (PAdd (PSub x_t (PScale (1 / (L * (real t + 2))) gr))
                          (PScale (real t / (real t + 2)) (PSub x_t x_prev)),
                     x_t, st')
            \<and> hb_loop H L (py_range n) (x0, x0, st0) =
                hb_loop H L (drop (Suc t) (py_range n))
                  (PAdd (PSub x_t (PScale (1 / (L * (real t + 2))) gr))
                        (PScale (real t / (real t + 2)) (PSub x_t x_prev)),
                   x_t, st')))
    \<and> (0 \<le> n \<longrightarrow>
          (\<exists>x_n x_old st_n fx st_v.
              hb_loop H L (py_range n) (x0, x0, st0) = Inr (x_n, x_old, st_n)
            \<and> func_value H x_n st_n = (fx, st_v)
            \<and> hb_metric H fs x_n st_n = (ESub fx fs, set_performance_metric H (ESub fx fs) st_v)
            \<and> wc_heavy_ball_momentum_qg_convex H L n verbose =
                (case solve H (max verbose 0) (set_performance_metric H (ESub fx fs) st_v) of
                   Inl e \<Rightarrow> Inl e
                 | Inr pepit_tau \<Rightarrow> Inr (pepit_tau, L / (2 * (real_of_int n + 1))))))"
proof -
  obtain fs x0 st0 where su: "hb_setup H L = Inr (fs, x0, st0)"
    using hb_setup_ok [of H] by blast
  from hb_setup_fs [OF su] have fs: "\<exists>func xs st1 st2.
          ConvexQGFunction_init [''L'' \<mapsto> L] True None False = Inr func
        \<and> func_stationary_point H (declare_function H func (new_PEP H)) = (xs, st1)
        \<and> func_value H xs st1 = (fs, st2)"
    by blast
  have start: "hb_loop H L (py_range 0) (x0, x0, st0) = Inr (x0, x0, st0)"
    by (simp add: py_range_def)
  have iter: "\<forall>t. int t < n \<longrightarrow>
          (\<exists>x_t x_prev st gr st'.
              hb_loop H L (py_range (int t)) (x0, x0, st0) = Inr (x_t, x_prev, st)
            \<and> func_gradient H x_t st = (gr, st')
            \<and> hb_loop H L (py_range (int (Suc t))) (x0, x0, st0) =
                Inr (PAdd (PSub x_t (PScale (1 / (L * (real t + 2))) gr))
                          (PScale (real t / (real t + 2)) (PSub x_t x_prev)),
                     x_t, st')
            \<and> hb_loop H L (py_range n) (x0, x0, st0) =
                hb_loop H L (drop (Suc t) (py_range n))
                  (PAdd (PSub x_t (PScale (1 / (L * (real t + 2))) gr))
                        (PScale (real t / (real t + 2)) (PSub x_t x_prev)),
                   x_t, st'))"
  proof (intro allI impI)
    fix t :: nat
    assume t: "int t < n"
    obtain x_t x_prev st where
      prev: "hb_loop H L (py_range (int t)) (x0, x0, st0) = Inr (x_t, x_prev, st)"
      using hb_loop_run [OF assms, of H t x0 st0] by blast
    obtain gr st' where gr: "func_gradient H x_t st = (gr, st')"
      by (cases "func_gradient H x_t st")
    let ?next = "PAdd (PSub x_t (PScale (1 / (L * (real t + 2))) gr))
                      (PScale (real t / (real t + 2)) (PSub x_t x_prev))"
    have step: "hb_loop H L (py_range (int (Suc t))) (x0, x0, st0) = Inr (?next, x_t, st')"
      unfolding py_range_Suc hb_loop_append prev
      using hb_body [OF assms, of "int t" H x_t x_prev st] gr by simp
    have rest: "hb_loop H L (py_range n) (x0, x0, st0) =
        hb_loop H L (drop (Suc t) (py_range n)) (?next, x_t, st')"
      by (subst py_range_split [OF t]) (simp only: hb_loop_append step sum.case)
    from prev gr step rest
    show "\<exists>x_t x_prev st gr st'.
              hb_loop H L (py_range (int t)) (x0, x0, st0) = Inr (x_t, x_prev, st)
            \<and> func_gradient H x_t st = (gr, st')
            \<and> hb_loop H L (py_range (int (Suc t))) (x0, x0, st0) =
                Inr (PAdd (PSub x_t (PScale (1 / (L * (real t + 2))) gr))
                          (PScale (real t / (real t + 2)) (PSub x_t x_prev)),
                     x_t, st')
            \<and> hb_loop H L (py_range n) (x0, x0, st0) =
                hb_loop H L (drop (Suc t) (py_range n))
                  (PAdd (PSub x_t (PScale (1 / (L * (real t + 2))) gr))
                        (PScale (real t / (real t + 2)) (PSub x_t x_prev)),
                   x_t, st')"
      by blast
  qed
  have metric: "0 \<le> n \<longrightarrow>
          (\<exists>x_n x_old st_n fx st_v.
              hb_loop H L (py_range n) (x0, x0, st0) = Inr (x_n, x_old, st_n)
            \<and> func_value H x_n st_n = (fx, st_v)
            \<and> hb_metric H fs x_n st_n = (ESub fx fs, set_performance_metric H (ESub fx fs) st_v)
            \<and> wc_heavy_ball_momentum_qg_convex H L n verbose =
                (case solve H (max verbose 0) (set_performance_metric H (ESub fx fs) st_v) of
                   Inl e \<Rightarrow> Inl e
                 | Inr pepit_tau \<Rightarrow> Inr (pepit_tau, L / (2 * (real_of_int n + 1)))))"
  proof
    assume n: "0 \<le> n"
    then have n1: "n \<noteq> - 1" by simp
    from assms have a: "L \<noteq> 0 \<or> n \<le> 0" by simp
    from wc_hb_result [OF a n1, of H verbose] su obtain x_n x_old st_n where
      loop: "hb_loop H L (py_range n) (x0, x0, st0) = Inr (x_n, x_old, st_n)"
      and wc: "wc_heavy_ball_momentum_qg_convex H L n verbose =
        (case solve H (max verbose 0) (snd (hb_metric H fs x_n st_n)) of
           Inl e \<Rightarrow> Inl e
         | Inr pepit_tau \<Rightarrow> Inr (pepit_tau, L / (2 * (real_of_int n + 1))))"
      by auto
    obtain fx st_v where v: "func_value H x_n st_n = (fx, st_v)"
      by (cases "func_value H x_n st_n")
    have m: "hb_metric H fs x_n st_n = (ESub fx fs, set_performance_metric H (ESub fx fs) st_v)"
      by (simp add: hb_metric_def v)
    from loop v m wc
    show "\<exists>x_n x_old st_n fx st_v.
              hb_loop H L (py_range n) (x0, x0, st0) = Inr (x_n, x_old, st_n)
            \<and> func_value H x_n st_n = (fx, st_v)
            \<and> hb_metric H fs x_n st_n = (ESub fx fs, set_performance_metric H (ESub fx fs) st_v)
            \<and> wc_heavy_ball_momentum_qg_convex H L n verbose =
                (case solve H (max verbose 0) (set_performance_metric H (ESub fx fs) st_v) of
                   Inl e \<Rightarrow> Inl e
                 | Inr pepit_tau \<Rightarrow> Inr (pepit_tau, L / (2 * (real_of_int n + 1))))"
      by (intro exI [of _ x_n] exI [of _ x_old] exI [of _ st_n] exI [of _ fx] exI [of _ st_v])
         simp
  qed
  show ?thesis
    by (intro exI [of _ fs] exI [of _ x0] exI [of _ st0] conjI) (rule su fs start iter metric)+
qed

theorem hb_iteration_witness:
  "(1::real) \<noteq> 0 \<and> int 1 < 2 \<and> (0::int) \<le> 2
   \<and> wc_heavy_ball_momentum_qg_convex example_harness 1 2 1 = Inr (1 / 10, 1 / 6)
   \<and> (\<exists>x0 st0 x_t x_prev gr st'.
         hb_loop example_harness 1 (py_range 2) (x0, x0, st0) =
           Inr (PAdd (PSub x_t (PScale (1 / 3) gr)) (PScale (1 / 3) (PSub x_t x_prev)), x_t, st'))"
proof -
  have h: "(1::real) \<noteq> 0" by simp
  have sv: "\<And>v st. solve example_harness v st = Inr (1 / 10)"
    by (simp add: example_harness_def logging_harness_def)
  from hb_iteration [OF h, of example_harness 2 1] obtain fs x0 st0 where
    iter: "\<forall>t. int t < 2 \<longrightarrow>
          (\<exists>x_t x_prev st gr st'.
              hb_loop example_harness 1 (py_range (int t)) (x0, x0, st0) = Inr (x_t, x_prev, st)
            \<and> func_gradient example_harness x_t st = (gr, st')
            \<and> hb_loop example_harness 1 (py_range (int (Suc t))) (x0, x0, st0) =
                Inr (PAdd (PSub x_t (PScale (1 / (1 * (real t + 2))) gr))
                          (PScale (real t / (real t + 2)) (PSub x_t x_prev)),
                     x_t, st')
            \<and> hb_loop example_harness 1 (py_range 2) (x0, x0, st0) =
                hb_loop example_harness 1 (drop (Suc t) (py_range 2))
                  (PAdd (PSub x_t (PScale (1 / (1 * (real t + 2))) gr))
                        (PScale (real t / (real t + 2)) (PSub x_t x_prev)),
                   x_t, st'))"
    and metric: "0 \<le> (2::int) \<longrightarrow>
          (\<exists>x_n x_old st_n fx st_v.
              hb_loop example_harness 1 (py_range 2) (x0, x0, st0) = Inr (x_n, x_old, st_n)
            \<and> func_value example_harness x_n st_n = (fx, st_v)
            \<and> hb_metric example_harness fs x_n st_n =
                (ESub fx fs, set_performance_metric example_harness (ESub fx fs) st_v)
            \<and> wc_heavy_ball_momentum_qg_convex example_harness 1 2 1 =
                (case solve example_harness (max 1 0)
                        (set_performance_metric example_harness (ESub fx fs) st_v) of
                   Inl e \<Rightarrow> Inl e
                 | Inr pepit_tau \<Rightarrow> Inr (pepit_tau, 1 / (2 * (real_of_int 2 + 1)))))"
    by blast
  from metric have wc: "wc_heavy_ball_momentum_qg_convex example_harness 1 2 1 = Inr (1 / 10, 1 / 6)"
    by (auto simp add: sv)
  from iter have "\<exists>x_t x_prev st gr st'.
              hb_loop example_harness 1 (py_range (int (Suc 1))) (x0, x0, st0) =
                Inr (PAdd (PSub x_t (PScale (1 / (1 * (real 1 + 2))) gr))
                          (PScale (real 1 / (real 1 + 2)) (PSub x_t x_prev)),
                     x_t, st')"
    by (metis int_ops(2) one_less_numeral_iff semiring_norm(76))
  then have "\<exists>x_t x_prev gr st'.
         hb_loop example_harness 1 (py_range 2) (x0, x0, st0) =
           Inr (PAdd (PSub x_t (PScale (1 / 3) gr)) (PScale (1 / 3) (PSub x_t x_prev)), x_t, st')"
    by simp
  then have ex: "\<exists>x0 st0 x_t x_prev gr st'.
         hb_loop example_harness 1 (py_range 2) (x0, x0, st0) =
           Inr (PAdd (PSub x_t (PScale (1 / 3) gr)) (PScale (1 / 3) (PSub x_t x_prev)), x_t, st')"
    by blast
  show ?thesis
    by (intro conjI wc ex) simp_all
qed

subsection \<open>The closed-form bounds\<close>

text \<open>
  Claim C8. Whenever an unroller returns, the second value of the pair is the closed form:
  \<open>L / (2 (n + 1))\<close> for conjugate gradient and heavy ball, \<open>L / (2 u\<^sub>n)\<close> for gradient
  descent, whatever the harness and its solver answer. The unrollers do return, with the
  solver's value as first component, for \<open>n \<ge> 1\<close> (conjugate gradient) and for \<open>n \<ge> 0\<close>
  with \<open>L \<noteq> 0\<close> or \<open>n = 0\<close> (the other two), as soon as the solver returns; a failure of
  the solver is passed on as it is.
\<close>

theorem theoretical_bound_closed_form:
  "(\<forall>tau th. wc_conjugate_gradient_qg_convex H L n verbose = Inr (tau, th)
        \<longrightarrow> th = L / (2 * (real_of_int n + 1)))
   \<and> (\<forall>tau th. wc_gradient_descent_qg_convex_decreasing H L n verbose = Inr (tau, th)
        \<longrightarrow> th = L / (2 * u_seq (nat n)))
   \<and> (\<forall>tau th. wc_heavy_ball_momentum_qg_convex H L n verbose = Inr (tau, th)
        \<longrightarrow> th = L / (2 * (real_of_int n + 1)))
   \<and> (1 \<le> n \<longrightarrow>
        (\<exists>st. wc_conjugate_gradient_qg_convex H L n verbose =
           (case solve H (max verbose 0) st of
              Inl e \<Rightarrow> Inl e
            | Inr pepit_tau \<Rightarrow> Inr (pepit_tau, L / (2 * (real_of_int n + 1))))))
   \<and> (0 \<le> n \<longrightarrow> L \<noteq> 0 \<or> n = 0 \<longrightarrow>
        (\<exists>st. wc_gradient_descent_qg_convex_decreasing H L n verbose =
           (case solve H (max verbose 0) st of
              Inl e \<Rightarrow> Inl e
            | Inr pepit_tau \<Rightarrow> Inr (pepit_tau, L / (2 * u_seq (nat n))))))
   \<and> (0 \<le> n \<longrightarrow> L \<noteq> 0 \<or> n = 0 \<longrightarrow>
        (\<exists>st. wc_heavy_ball_momentum_qg_convex H L n verbose =
           (case solve H (max verbose 0) st of
              Inl e \<Rightarrow> Inl e
            | Inr pepit_tau \<Rightarrow> Inr (pepit_tau, L / (2 * (real_of_int n + 1))))))"
proof (intro conjI allI impI)
  fix tau th
  assume "wc_conjugate_gradient_qg_convex H L n verbose = Inr (tau, th)"
  then show "th = L / (2 * (real_of_int n + 1))" by (rule wc_cg_bound)
next
  fix tau th
  assume "wc_gradient_descent_qg_convex_decreasing H L n verbose = Inr (tau, th)"
  then show "th = L / (2 * u_seq (nat n))" by (rule wc_gd_bound)
next
  fix tau th
  assume "wc_heavy_ball_momentum_qg_convex H L n verbose = Inr (tau, th)"
  then show "th = L / (2 * (real_of_int n + 1))" by (rule wc_hb_bound)
next
  assume "1 \<le> n"
  from wc_cg_result [OF this, of H L verbose]
  show "\<exists>st. wc_conjugate_gradient_qg_convex H L n verbose =
           (case solve H (max verbose 0) st of
              Inl e \<Rightarrow> Inl e
            | Inr pepit_tau \<Rightarrow> Inr (pepit_tau, L / (2 * (real_of_int n + 1))))"
    by blast
next
  assume "0 \<le> n" and "L \<noteq> 0 \<or> n = 0"
  then have "L \<noteq> 0 \<or> n \<le> 0" by auto
  then show "\<exists>st. wc_gradient_descent_qg_convex_decreasing H L n verbose =
           (case solve H (max verbose 0) st of
              Inl e \<Rightarrow> Inl e
            | Inr pepit_tau \<Rightarrow> Inr (pepit_tau, L / (2 * u_seq (nat n))))"
    by (rule wc_gd_result)
next
  assume n: "0 \<le> n" and "L \<noteq> 0 \<or> n = 0"
  then have a: "L \<noteq> 0 \<or> n \<le> 0" by auto
  from n have b: "n \<noteq> - 1" by simp
  from wc_hb_result [OF a b, of H verbose]
  show "\<exists>st. wc_heavy_ball_momentum_qg_convex H L n verbose =
           (case solve H (max verbose 0) st of
              Inl e \<Rightarrow> Inl e
            | Inr pepit_tau \<Rightarrow> Inr (pepit_tau, L / (2 * (real_of_int n + 1))))"
    by blast
qed

theorem theoretical_bound_closed_form_witness:
  "(1::int) \<le> 2 \<and> (0::int) \<le> 2 \<and> (3::real) \<noteq> 0
   \<and> wc_conjugate_gradient_qg_convex example_harness 3 2 1 = Inr (1 / 10, 3 / (2 * 3))
   \<and> wc_heavy_ball_momentum_qg_convex example_harness 3 2 1 = Inr (1 / 10, 3 / (2 * 3))
   \<and> wc_gradient_descent_qg_convex_decreasing example_harness 3 2 1 =
       Inr (1 / 10, 3 / (2 * u_seq 2))"
proof -
  have sv: "\<And>v st. solve example_harness v st = Inr (1 / 10)"
    by (simp add: example_harness_def logging_harness_def)
  have n2: "nat 2 = 2" by simp
  note t = theoretical_bound_closed_form [of example_harness 3 2 1]
  from t have cg: "wc_conjugate_gradient_qg_convex example_harness 3 2 1 = Inr (1 / 10, 3 / (2 * 3))"
    by (auto simp add: sv)
  from t have hb: "wc_heavy_ball_momentum_qg_convex example_harness 3 2 1 = Inr (1 / 10, 3 / (2 * 3))"
    by (auto simp add: sv)
  from t have "\<exists>st. wc_gradient_descent_qg_convex_decreasing example_harness 3 2 1 =
           (case solve example_harness (max 1 0) st of
              Inl e \<Rightarrow> Inl e
            | Inr pepit_tau \<Rightarrow> Inr (pepit_tau, 3 / (2 * u_seq (nat 2))))"
    by simp
  then have gd: "wc_gradient_descent_qg_convex_decreasing example_harness 3 2 1 =
       Inr (1 / 10, 3 / (2 * u_seq 2))"
    unfolding sv n2 by simp
  show ?thesis
    by (intro conjI cg hb gd) simp_all
qed

subsection \<open>Inputs are taken as they come\<close>

text \<open>
  Claim C9. The initialiser stores whatever \<open>L\<close> it is given. The generator divides by
  \<open>2 L\<close> without a guard: it raises \<open>ZeroDivisionError\<close> exactly when \<open>L = 0\<close> and rule 1
  has a pair to treat, and runs to its end for every other \<open>L\<close>, negative ones included.
  The two unrollers that divide by \<open>L\<close> raise the same error for \<open>L = 0\<close> and \<open>n \<ge> 1\<close>,
  and for every other \<open>L\<close> return what the solver returns, a failure of the solver being
  passed on unchanged. With \<open>n < 0\<close> each loop leaves its state as it was; conjugate
  gradient then stops at the unbound \<open>fx\<close>, gradient descent returns \<open>L / 2\<close>, and heavy
  ball returns \<open>L / (2 (n + 1))\<close> except at \<open>n = - 1\<close>, where the division by \<open>2 (n + 1)\<close>
  raises once the solver has returned.
\<close>

theorem inputs_not_validated:
  "(\<forall>a b c. \<exists>func. ConvexQGFunction_init [''L'' \<mapsto> L] a b c = Inr func \<and> self_L func = L)
   \<and> add_class_constraints self =
       (if self_L self = 0
           \<and> stationary_pairs (list_of_stationary_points self) (list_of_points self) \<noteq> []
        then Inl ZeroDivisionError
        else Inr (self\<lparr>list_of_constraints := list_of_constraints self @
                    rule1 (self_L self) (list_of_stationary_points self) (list_of_points self) @
                    rule2 (list_of_points self)\<rparr>))
   \<and> (1 \<le> n \<longrightarrow>
         wc_gradient_descent_qg_convex_decreasing H 0 n verbose = Inl ZeroDivisionError
       \<and> wc_heavy_ball_momentum_qg_convex H 0 n verbose = Inl ZeroDivisionError)
   \<and> (L \<noteq> 0 \<longrightarrow> 0 \<le> n \<longrightarrow>
         (\<exists>st. wc_gradient_descent_qg_convex_decreasing H L n verbose =
            (case solve H (max verbose 0) st of
               Inl e \<Rightarrow> Inl e
             | Inr pepit_tau \<Rightarrow> Inr (pepit_tau, L / (2 * u_seq (nat n)))))
       \<and> (\<exists>st. wc_heavy_ball_momentum_qg_convex H L n verbose =
            (case solve H (max verbose 0) st of
               Inl e \<Rightarrow> Inl e
             | Inr pepit_tau \<Rightarrow> Inr (pepit_tau, L / (2 * (real_of_int n + 1))))))
   \<and> (n < 0 \<longrightarrow>
         gd_loop H L (py_range n) s1 = Inr s1
       \<and> hb_loop H L (py_range n) s2 = Inr s2
       \<and> cg_loop H (py_range n) s3 = s3
       \<and> wc_conjugate_gradient_qg_convex H L n verbose = Inl NameError
       \<and> (\<exists>st. wc_gradient_descent_qg_convex_decreasing H L n verbose =
            (case solve H (max verbose 0) st of
               Inl e \<Rightarrow> Inl e
             | Inr pepit_tau \<Rightarrow> Inr (pepit_tau, L / 2)))
       \<and> (n < - 1 \<longrightarrow>
            (\<exists>st. wc_heavy_ball_momentum_qg_convex H L n verbose =
               (case solve H (max verbose 0) st of
                  Inl e \<Rightarrow> Inl e
                | Inr pepit_tau \<Rightarrow> Inr (pepit_tau, L / (2 * (real_of_int n + 1))))))
       \<and> (n = - 1 \<longrightarrow>
            (\<exists>st. wc_heavy_ball_momentum_qg_convex H L n verbose =
               (case solve H (max verbose 0) st of
                  Inl e \<Rightarrow> Inl e
                | Inr pepit_tau \<Rightarrow> Inl ZeroDivisionError))))"
proof (intro conjI allI impI)
  fix a b c
  show "\<exists>func. ConvexQGFunction_init [''L'' \<mapsto> L] a b c = Inr func \<and> self_L func = L"
    by (simp add: init_ok)
next
  show "add_class_constraints self =
       (if self_L self = 0
           \<and> stationary_pairs (list_of_stationary_points self) (list_of_points self) \<noteq> []
        then Inl ZeroDivisionError
        else Inr (self\<lparr>list_of_constraints := list_of_constraints self @
                    rule1 (self_L self) (list_of_stationary_points self) (list_of_points self) @
                    rule2 (list_of_points self)\<rparr>))"
    by (simp add: add_class_constraints_eq interpolation_constraints_def)
next
  assume "1 \<le> n"
  then show "wc_gradient_descent_qg_convex_decreasing H 0 n verbose = Inl ZeroDivisionError"
    by (rule wc_gd_zero)
next
  assume "1 \<le> n"
  then show "wc_heavy_ball_momentum_qg_convex H 0 n verbose = Inl ZeroDivisionError"
    by (rule wc_hb_zero)
next
  assume "L \<noteq> 0"
  then have "L \<noteq> 0 \<or> n \<le> 0" by simp
  then show "\<exists>st. wc_gradient_descent_qg_convex_decreasing H L n verbose =
            (case solve H (max verbose 0) st of
               Inl e \<Rightarrow> Inl e
             | Inr pepit_tau \<Rightarrow> Inr (pepit_tau, L / (2 * u_seq (nat n))))"
    by (rule wc_gd_result)
next
  assume "L \<noteq> 0" and n: "0 \<le> n"
  then have a: "L \<noteq> 0 \<or> n \<le> 0" by simp
  from n have b: "n \<noteq> - 1" by simp
  from wc_hb_result [OF a b, of H verbose]
  show "\<exists>st. wc_heavy_ball_momentum_qg_convex H L n verbose =
            (case solve H (max verbose 0) st of
               Inl e \<Rightarrow> Inl e
             | Inr pepit_tau \<Rightarrow> Inr (pepit_tau, L / (2 * (real_of_int n + 1))))"
    by blast
next
  assume "n < 0"
  then show "gd_loop H L (py_range n) s1 = Inr s1"
    by (simp add: py_range_nonpos)
next
  assume "n < 0"
  then show "hb_loop H L (py_range n) s2 = Inr s2"
    by (simp add: py_range_nonpos)
next
  assume "n < 0"
  then show "cg_loop H (py_range n) s3 = s3"
    by (simp add: py_range_nonpos)
next
  assume "n < 0"
  then have "n \<le> 0" by simp
  then show "wc_conjugate_gradient_qg_convex H L n verbose = Inl NameError"
    by (rule wc_cg_nonpos)
next
  assume n: "n < 0"
  then have "L \<noteq> 0 \<or> n \<le> 0" by simp
  from n have z: "L / (2 * u_seq (nat n)) = L / 2" by simp
  from wc_gd_result [OF \<open>L \<noteq> 0 \<or> n \<le> 0\<close>, of H verbose]
  show "\<exists>st. wc_gradient_descent_qg_convex_decreasing H L n verbose =
            (case solve H (max verbose 0) st of
               Inl e \<Rightarrow> Inl e
             | Inr pepit_tau \<Rightarrow> Inr (pepit_tau, L / 2))"
    unfolding z .
next
  assume "n < 0" and n: "n < - 1"
  then have a: "L \<noteq> 0 \<or> n \<le> 0" by simp
  from n have b: "n \<noteq> - 1" by simp
  from wc_hb_result [OF a b, of H verbose]
  show "\<exists>st. wc_heavy_ball_momentum_qg_convex H L n verbose =
               (case solve H (max verbose 0) st of
                  Inl e \<Rightarrow> Inl e
                | Inr pepit_tau \<Rightarrow> Inr (pepit_tau, L / (2 * (real_of_int n + 1))))"
    by blast
next
  assume "n < 0" and n: "n = - 1"
  show "\<exists>st. wc_heavy_ball_momentum_qg_convex H L n verbose =
               (case solve H (max verbose 0) st of
                  Inl e \<Rightarrow> Inl e
                | Inr pepit_tau \<Rightarrow> Inl ZeroDivisionError)"
    unfolding n by (rule wc_hb_minus_one)
qed

theorem inputs_not_validated_witness:
  "(1::int) \<le> 2 \<and> (- 3::real) \<noteq> 0 \<and> (0::int) \<le> 2 \<and> (- 1::int) < 0
   \<and> self_L degenerate_function = 0
   \<and> add_class_constraints degenerate_function = Inl ZeroDivisionError
   \<and> wc_gradient_descent_qg_convex_decreasing example_harness 0 2 1 = Inl ZeroDivisionError
   \<and> wc_heavy_ball_momentum_qg_convex example_harness 0 2 1 = Inl ZeroDivisionError
   \<and> wc_heavy_ball_momentum_qg_convex example_harness (- 3) 2 1 = Inr (1 / 10, - 3 / 6)
   \<and> wc_conjugate_gradient_qg_convex example_harness (- 3) (- 1) 1 = Inl NameError
   \<and> wc_gradient_descent_qg_convex_decreasing example_harness (- 3) (- 1) 1
       = Inr (1 / 10, - 3 / 2)
   \<and> (- 2::int) < - 1
   \<and> wc_heavy_ball_momentum_qg_convex example_harness (- 3) (- 2) 1 = Inr (1 / 10, 3 / 2)
   \<and> wc_heavy_ball_momentum_qg_convex example_harness (- 3) (- 1) 1 = Inl ZeroDivisionError"
proof -
  have sv: "\<And>v st. solve example_harness v st = Inr (1 / 10)"
    by (simp add: example_harness_def logging_harness_def)
  have l0: "self_L degenerate_function = 0"
    by (simp add: degenerate_function_def)
  have pairs: "stationary_pairs (list_of_stationary_points degenerate_function)
      (list_of_points degenerate_function) \<noteq> []"
    by (simp add: degenerate_function_def example_function_def stationary_pairs_def)
  note pos = inputs_not_validated [where H = example_harness and n = 2 and verbose = 1
      and L = "- 3" and self = degenerate_function
      and ?s1.0 = "(1, PLeaf 0, PLeaf 0, ELeaf 0, [])" and ?s2.0 = "(PLeaf 0, PLeaf 0, [])"
      and ?s3.0 = "(PLeaf 0, None, [], [])"]
  note neg = inputs_not_validated [where H = example_harness and n = "- 1" and verbose = 1
      and L = "- 3" and self = degenerate_function
      and ?s1.0 = "(1, PLeaf 0, PLeaf 0, ELeaf 0, [])" and ?s2.0 = "(PLeaf 0, PLeaf 0, [])"
      and ?s3.0 = "(PLeaf 0, None, [], [])"]
  from pos l0 pairs
  have gen: "add_class_constraints degenerate_function = Inl ZeroDivisionError"
    by simp
  from pos have gd0: "wc_gradient_descent_qg_convex_decreasing example_harness 0 2 1
      = Inl ZeroDivisionError"
    and hb0: "wc_heavy_ball_momentum_qg_convex example_harness 0 2 1 = Inl ZeroDivisionError"
    by simp_all
  from pos have "\<exists>st. wc_heavy_ball_momentum_qg_convex example_harness (- 3) 2 1 =
            (case solve example_harness (max 1 0) st of
               Inl e \<Rightarrow> Inl e
             | Inr pepit_tau \<Rightarrow> Inr (pepit_tau, - 3 / (2 * (real_of_int 2 + 1))))"
    by simp
  then have hb: "wc_heavy_ball_momentum_qg_convex example_harness (- 3) 2 1 = Inr (1 / 10, - 3 / 6)"
    unfolding sv by simp
  from neg have cg: "wc_conjugate_gradient_qg_convex example_harness (- 3) (- 1) 1 = Inl NameError"
    by simp
  from neg have "\<exists>st. wc_gradient_descent_qg_convex_decreasing example_harness (- 3) (- 1) 1 =
            (case solve example_harness (max 1 0) st of
               Inl e \<Rightarrow> Inl e
             | Inr pepit_tau \<Rightarrow> Inr (pepit_tau, - 3 / 2))"
    by simp
  then have gd: "wc_gradient_descent_qg_convex_decreasing example_harness (- 3) (- 1) 1
       = Inr (1 / 10, - 3 / 2)"
    unfolding sv by simp
  note neg2 = inputs_not_validated [where H = example_harness and n = "- 2" and verbose = 1
      and L = "- 3" and self = degenerate_function
      and ?s1.0 = "(1, PLeaf 0, PLeaf 0, ELeaf 0, [])" and ?s2.0 = "(PLeaf 0, PLeaf 0, [])"
      and ?s3.0 = "(PLeaf 0, None, [], [])"]
  from neg2 have "\<exists>st. wc_heavy_ball_momentum_qg_convex example_harness (- 3) (- 2) 1 =
               (case solve example_harness (max 1 0) st of
                  Inl e \<Rightarrow> Inl e
                | Inr pepit_tau \<Rightarrow> Inr (pepit_tau, - 3 / (2 * (real_of_int (- 2) + 1))))"
    by simp
  then have hbn2: "wc_heavy_ball_momentum_qg_convex example_harness (- 3) (- 2) 1
      = Inr (1 / 10, 3 / 2)"
    unfolding sv by simp
  from neg have "\<exists>st. wc_heavy_ball_momentum_qg_convex example_harness (- 3) (- 1) 1 =
               (case solve example_harness (max 1 0) st of
                  Inl e \<Rightarrow> Inl e
                | Inr pepit_tau \<Rightarrow> Inl ZeroDivisionError)"
    by simp
  then have hbn1: "wc_heavy_ball_momentum_qg_convex example_harness (- 3) (- 1) 1
      = Inl ZeroDivisionError"
    unfolding sv by simp
  show ?thesis
    by (intro conjI l0 gen gd0 hb0 hb cg gd hbn2 hbn1) simp_all
qed

subsection \<open>Conjugate gradient without iterations\<close>

text \<open>
  Claim C10. With \<open>n = 0\<close> the loop body never runs, the local \<open>fx\<close> is unbound when the
  metric is built, and the call ends in a \<open>NameError\<close> whatever the harness does. With
  \<open>n \<ge> 1\<close> the metric registered is the value returned by the last line search minus the
  value at the stationary point, and the call goes on to the solver.
\<close>

theorem cg_metric_needs_one_iteration:
  "wc_conjugate_gradient_qg_convex H L 0 verbose = Inl NameError
   \<and> (1 \<le> n \<longrightarrow>
        (\<exists>fs x0 g0 st0 x_prev fx_prev sp_prev st_prev x_n gx fx st_n.
            cg_setup H L = Inr (fs, x0, g0, st0)
          \<and> (\<exists>func xs st1 st2.
                ConvexQGFunction_init [''L'' \<mapsto> L] True None False = Inr func
              \<and> func_stationary_point H (declare_function H func (new_PEP H)) = (xs, st1)
              \<and> func_value H xs st1 = (fs, st2))
          \<and> cg_loop H (py_range (n - 1)) (x0, None, [g0], st0)
               = (x_prev, fx_prev, sp_prev, st_prev)
          \<and> exact_linesearch_step H x_prev sp_prev st_prev = ((x_n, gx, fx), st_n)
          \<and> cg_loop H (py_range n) (x0, None, [g0], st0)
               = (x_n, Some fx, sp_prev @ [gx, PSub x_prev x_n], st_n)
          \<and> cg_metric H fs (Some fx) st_n
               = Inr (ESub fx fs, set_performance_metric H (ESub fx fs) st_n)
          \<and> wc_conjugate_gradient_qg_convex H L n verbose =
              (case solve H (max verbose 0) (set_performance_metric H (ESub fx fs) st_n) of
                 Inl e \<Rightarrow> Inl e
               | Inr pepit_tau \<Rightarrow> Inr (pepit_tau, L / (2 * (real_of_int n + 1))))))"
proof (intro conjI impI)
  show "wc_conjugate_gradient_qg_convex H L 0 verbose = Inl NameError"
    by (rule wc_cg_nonpos) simp
next
  assume n: "1 \<le> n"
  from wc_cg_result [OF n, of H L verbose]
  obtain fs x0 g0 st0 x_prev fx_prev sp_prev st_prev x_n gx fx st_n where
    su: "cg_setup H L = Inr (fs, x0, g0, st0)"
    and rest: "cg_loop H (py_range (n - 1)) (x0, None, [g0], st0)
               = (x_prev, fx_prev, sp_prev, st_prev)"
      "exact_linesearch_step H x_prev sp_prev st_prev = ((x_n, gx, fx), st_n)"
      "cg_loop H (py_range n) (x0, None, [g0], st0)
               = (x_n, Some fx, sp_prev @ [gx, PSub x_prev x_n], st_n)"
      "cg_metric H fs (Some fx) st_n
               = Inr (ESub fx fs, set_performance_metric H (ESub fx fs) st_n)"
      "wc_conjugate_gradient_qg_convex H L n verbose =
              (case solve H (max verbose 0) (set_performance_metric H (ESub fx fs) st_n) of
                 Inl e \<Rightarrow> Inl e
               | Inr pepit_tau \<Rightarrow> Inr (pepit_tau, L / (2 * (real_of_int n + 1))))"
    by blast
  from cg_setup_fs [OF su] have fs: "\<exists>func xs st1 st2.
                ConvexQGFunction_init [''L'' \<mapsto> L] True None False = Inr func
              \<and> func_stationary_point H (declare_function H func (new_PEP H)) = (xs, st1)
              \<and> func_value H xs st1 = (fs, st2)"
    by blast
  show "\<exists>fs x0 g0 st0 x_prev fx_prev sp_prev st_prev x_n gx fx st_n.
            cg_setup H L = Inr (fs, x0, g0, st0)
          \<and> (\<exists>func xs st1 st2.
                ConvexQGFunction_init [''L'' \<mapsto> L] True None False = Inr func
              \<and> func_stationary_point H (declare_function H func (new_PEP H)) = (xs, st1)
              \<and> func_value H xs st1 = (fs, st2))
          \<and> cg_loop H (py_range (n - 1)) (x0, None, [g0], st0)
               = (x_prev, fx_prev, sp_prev, st_prev)
          \<and> exact_linesearch_step H x_prev sp_prev st_prev = ((x_n, gx, fx), st_n)
          \<and> cg_loop H (py_range n) (x0, None, [g0], st0)
               = (x_n, Some fx, sp_prev @ [gx, PSub x_prev x_n], st_n)
          \<and> cg_metric H fs (Some fx) st_n
               = Inr (ESub fx fs, set_performance_metric H (ESub fx fs) st_n)
          \<and> wc_conjugate_gradient_qg_convex H L n verbose =
              (case solve H (max verbose 0) (set_performance_metric H (ESub fx fs) st_n) of
                 Inl e \<Rightarrow> Inl e
               | Inr pepit_tau \<Rightarrow> Inr (pepit_tau, L / (2 * (real_of_int n + 1))))"
    by (intro exI [of _ fs] exI [of _ x0] exI [of _ g0] exI [of _ st0] exI [of _ x_prev]
        exI [of _ fx_prev] exI [of _ sp_prev] exI [of _ st_prev] exI [of _ x_n] exI [of _ gx]
        exI [of _ fx] exI [of _ st_n] conjI) (rule su fs rest)+
qed

theorem cg_metric_needs_one_iteration_witness:
  "(1::int) \<le> 1
   \<and> wc_conjugate_gradient_qg_convex example_harness 1 0 1 = Inl NameError
   \<and> wc_conjugate_gradient_qg_convex example_harness 1 1 1 = Inr (1 / 10, 1 / 4)"
proof -
  have sv: "\<And>v st. solve example_harness v st = Inr (1 / 10)"
    by (simp add: example_harness_def logging_harness_def)
  from cg_metric_needs_one_iteration [of example_harness 1 1 1]
  have z: "wc_conjugate_gradient_qg_convex example_harness 1 0 1 = Inl NameError"
    and p: "wc_conjugate_gradient_qg_convex example_harness 1 1 1 = Inr (1 / 10, 1 / 4)"
    by (auto simp add: sv)
  show ?thesis
    by (intro conjI z p) simp
qed

end
